theory Spec2Isabelle
  imports Main
begin

text \<open>
  A model of the error tracker SDK: the configuration, the hub that builds events from the
  scope, the transports, the browser client with its offline queue, the Node client, and
  the package entry points of both. Each operation is a function from the state it reads
  to the state it leaves; an operation that can throw returns a sum whose left side is the
  thrown value. Asynchronous operations are run to completion one at a time.
\<close>

section \<open>Core types (packages/core/src/types.ts)\<close>

text \<open>
  Values of TypeScript type \<open>unknown\<close> that the SDK stores without looking inside
  them. \<open>JUndefined\<close> is the JavaScript value \<open>undefined\<close>; a key of an object
  may hold it, which is different from the key being deleted.
\<close>

datatype jsval = JUndefined | JNull | JBool bool | JNum int | JStr string

text \<open>
  A plain JavaScript object used as a dictionary (\<open>Record<string, V>\<close>): its own
  enumerable keys in the order they were added (nothing below depends on that order).
  \<open>assign\<close> is \<open>obj[key] = value\<close>, \<open>delete_key\<close> is \<open>delete obj[key]\<close>,
  \<open>spread a b\<close> is the object literal \<open>{ ...a, ...b }\<close> and \<open>Object_keys\<close> is
  \<open>Object.keys\<close>.
\<close>

type_synonym 'v js_object = "(string \<times> 'v) list"

fun assign :: "string \<Rightarrow> 'v \<Rightarrow> 'v js_object \<Rightarrow> 'v js_object" where
  "assign k v [] = [(k, v)]"
| "assign k v (p # ps) = (if fst p = k then (k, v) # ps else p # assign k v ps)"

definition delete_key :: "string \<Rightarrow> 'v js_object \<Rightarrow> 'v js_object" where
  "delete_key k ps = filter (\<lambda>p. fst p \<noteq> k) ps"

fun spread :: "'v js_object \<Rightarrow> 'v js_object \<Rightarrow> 'v js_object" where
  "spread a [] = a"
| "spread a (p # ps) = spread (assign (fst p) (snd p) a) ps"

definition Object_keys :: "'v js_object \<Rightarrow> string list" where
  "Object_keys obj = map fst obj"

definition lookup :: "'v js_object \<Rightarrow> string \<Rightarrow> 'v option" where
  "lookup obj k = map_of obj k"

datatype ErrorLevel = Error | Warning | Critical

type_synonym UserInfo = "jsval js_object"

record SourceContext =
  fileName :: "string option"
  lineNumber :: "nat option"
  columnNumber :: "nat option"
  functionName :: "string option"

text \<open>
  An optional field \<open>f?: T\<close> is \<open>T option\<close>: \<open>None\<close> is a field whose value is
  \<open>undefined\<close>, which serialisation leaves out. \<open>appId\<close>, \<open>commitHash\<close> and
  \<open>environment\<close> are read from the configuration with a non-null assertion that does
  nothing at run time, so they carry whatever the configuration holds.
\<close>

record ErrorEvent =
  appId :: "string option"
  commitHash :: "string option"
  environment :: "string option"
  level :: ErrorLevel
  message :: string
  stackTrace :: "string option"
  metadata :: "jsval js_object option"
  sourceContext :: "SourceContext option"
  userAgent :: "string option"
  timestamp :: "string option"
  tags :: "string js_object option"
  user :: "UserInfo option"

text \<open>
  What a call of the \<open>beforeSend\<close> hook does. The hook is handed the event object
  itself and may edit it in place before it is done. \<open>HookThrows e\<close>: the hook throws
  (or its promise rejects), having left the event object as \<open>e\<close>. \<open>HookReturns r\<close>:
  it returns \<open>r\<close>, an event or \<open>null\<close>.
\<close>

datatype hook_result = HookThrows ErrorEvent | HookReturns "ErrorEvent option"

text \<open>
  A property of the options object that has a default. The spread
  \<open>{ ...DEFAULT_OPTIONS, ...options }\<close> keeps the default only when the key is not
  there at all; a key that is there with the value \<open>undefined\<close> overwrites it.
\<close>

datatype 'a given = Absent | Undefined | Given 'a

record ErrorTrackerOptions =
  opt_dsn :: "string option"
  opt_appId :: "string option"
  opt_commitHash :: "string option"
  opt_environment :: "string given"
  opt_apiKey :: "string option"
  opt_autoCapture :: "bool given"
  opt_debug :: "bool given"
  opt_beforeSend :: "(ErrorEvent \<Rightarrow> hook_result) option"
  opt_tags :: "string js_object option"
  opt_user :: "UserInfo option"

record TransportResponse =
  success :: bool
  id :: "string option"
  statusCode :: "nat option"
  error :: "string option"

record Scope =
  scope_tags :: "string js_object"
  scope_user :: "UserInfo option"
  scope_extras :: "jsval js_object"

section \<open>Configuration (packages/core/src/config.ts)\<close>

text \<open>
  A thrown value: an \<open>Error\<close> object with its message, or something that is not an
  \<open>Error\<close> (the \<open>catch\<close> blocks of the transports tell the two apart).
\<close>

datatype exn = ErrorObj string | NonErrorValue

definition VALID_ENVIRONMENTS :: "string list" where
  "VALID_ENVIRONMENTS = [''Production'', ''Staging'', ''Development'']"

definition or_default :: "'a \<Rightarrow> 'a given \<Rightarrow> 'a given" where
  "or_default d g = (case g of Absent \<Rightarrow> Given d | _ \<Rightarrow> g)"

text \<open>\<open>{ ...DEFAULT_OPTIONS, ...options }\<close>\<close>

definition merge_defaults :: "ErrorTrackerOptions \<Rightarrow> ErrorTrackerOptions" where
  "merge_defaults opts =
     opts\<lparr> opt_autoCapture := or_default True (opt_autoCapture opts),
           opt_debug := or_default False (opt_debug opts),
           opt_environment := or_default ''Development'' (opt_environment opts) \<rparr>"

text \<open>\<open>!s\<close> for an optional string: true when it is \<open>undefined\<close> or empty.\<close>

definition falsy :: "string option \<Rightarrow> bool" where
  "falsy s = (case s of None \<Rightarrow> True | Some t \<Rightarrow> t = [])"

definition includes_env :: "string list \<Rightarrow> string given \<Rightarrow> bool" where
  "includes_env xs g = (case g of Given s \<Rightarrow> s \<in> set xs | _ \<Rightarrow> False)"

definition validate :: "ErrorTrackerOptions \<Rightarrow> exn + unit" where
  "validate opts =
     (if falsy (opt_dsn opts) then Inl (ErrorObj ''ErrorTracker: dsn is required'')
      else if falsy (opt_appId opts) then Inl (ErrorObj ''ErrorTracker: appId is required'')
      else if falsy (opt_commitHash opts)
        then Inl (ErrorObj ''ErrorTracker: commitHash is required'')
      else if \<not> includes_env VALID_ENVIRONMENTS (opt_environment opts)
        then Inl (ErrorObj
          ''ErrorTracker: environment must be one of: Production, Staging, Development'')
      else Inr ())"

record Config =
  options :: ErrorTrackerOptions

definition Config_new :: "ErrorTrackerOptions \<Rightarrow> exn + Config" where
  "Config_new opts =
     (let merged = merge_defaults opts in
      case validate merged of
        Inl e \<Rightarrow> Inl e
      | Inr _ \<Rightarrow> Inr \<lparr> options = merged \<rparr>)"


text \<open>
  A \<open>Partial<ErrorTrackerOptions>\<close>: each key is missing, there with the value
  \<open>undefined\<close>, or there with a value. \<open>update\<close> spreads it over the options and
  does not validate the result.
\<close>

record OptionsUpdate =
  upd_dsn :: "string given"
  upd_appId :: "string given"
  upd_commitHash :: "string given"
  upd_environment :: "string given"
  upd_apiKey :: "string given"
  upd_autoCapture :: "bool given"
  upd_debug :: "bool given"
  upd_beforeSend :: "(ErrorEvent \<Rightarrow> hook_result) given"
  upd_tags :: "string js_object given"
  upd_user :: "UserInfo given"

definition overwrite :: "'a given \<Rightarrow> 'a option \<Rightarrow> 'a option" where
  "overwrite u old = (case u of Absent \<Rightarrow> old | Undefined \<Rightarrow> None | Given v \<Rightarrow> Some v)"

definition overwrite_given :: "'a given \<Rightarrow> 'a given \<Rightarrow> 'a given" where
  "overwrite_given u old = (case u of Absent \<Rightarrow> old | _ \<Rightarrow> u)"

definition Config_update :: "OptionsUpdate \<Rightarrow> Config \<Rightarrow> Config" where
  "Config_update updates c =
     \<lparr> options =
         \<lparr> opt_dsn = overwrite (upd_dsn updates) (opt_dsn (options c)),
           opt_appId = overwrite (upd_appId updates) (opt_appId (options c)),
           opt_commitHash = overwrite (upd_commitHash updates) (opt_commitHash (options c)),
           opt_environment =
             overwrite_given (upd_environment updates) (opt_environment (options c)),
           opt_apiKey = overwrite (upd_apiKey updates) (opt_apiKey (options c)),
           opt_autoCapture =
             overwrite_given (upd_autoCapture updates) (opt_autoCapture (options c)),
           opt_debug = overwrite_given (upd_debug updates) (opt_debug (options c)),
           opt_beforeSend = overwrite (upd_beforeSend updates) (opt_beforeSend (options c)),
           opt_tags = overwrite (upd_tags updates) (opt_tags (options c)),
           opt_user = overwrite (upd_user updates) (opt_user (options c)) \<rparr> \<rparr>"

section \<open>Base hub (packages/core/src/hub.ts)\<close>

text \<open>An \<open>Error\<close> object as the hub reads it.\<close>

record JsError =
  err_message :: string
  err_stack :: "string option"
  err_name :: string

record BaseHub =
  config :: Config
  scope :: Scope
  initialized :: bool

definition BaseHub_new :: "ErrorTrackerOptions \<Rightarrow> exn + BaseHub" where
  "BaseHub_new opts =
     (case Config_new opts of
        Inl e \<Rightarrow> Inl e
      | Inr c \<Rightarrow>
          Inr \<lparr> config = c,
                scope = \<lparr> scope_tags = (case opt_tags opts of None \<Rightarrow> [] | Some t \<Rightarrow> t),
                          scope_user = opt_user opts,
                          scope_extras = [] \<rparr>,
                initialized = True \<rparr>)"

definition setUser :: "UserInfo option \<Rightarrow> 'a BaseHub_scheme \<Rightarrow> 'a BaseHub_scheme" where
  "setUser u h = h\<lparr> scope := (scope h)\<lparr> scope_user := u \<rparr> \<rparr>"

definition setTag :: "string \<Rightarrow> string \<Rightarrow> 'a BaseHub_scheme \<Rightarrow> 'a BaseHub_scheme" where
  "setTag key val h = h\<lparr> scope := (scope h)\<lparr> scope_tags := assign key val (scope_tags (scope h)) \<rparr> \<rparr>"

definition setTags :: "string js_object \<Rightarrow> 'a BaseHub_scheme \<Rightarrow> 'a BaseHub_scheme" where
  "setTags ts h = h\<lparr> scope := (scope h)\<lparr> scope_tags := spread (scope_tags (scope h)) ts \<rparr> \<rparr>"

definition setExtra :: "string \<Rightarrow> jsval \<Rightarrow> 'a BaseHub_scheme \<Rightarrow> 'a BaseHub_scheme" where
  "setExtra key val h =
     (if val = JUndefined
      then h\<lparr> scope := (scope h)\<lparr> scope_extras := delete_key key (scope_extras (scope h)) \<rparr> \<rparr>
      else h\<lparr> scope := (scope h)\<lparr> scope_extras := assign key val (scope_extras (scope h)) \<rparr> \<rparr>)"

definition setExtras :: "jsval js_object \<Rightarrow> 'a BaseHub_scheme \<Rightarrow> 'a BaseHub_scheme" where
  "setExtras es h = h\<lparr> scope := (scope h)\<lparr> scope_extras := spread (scope_extras (scope h)) es \<rparr> \<rparr>"

definition getConfig :: "'a BaseHub_scheme \<Rightarrow> Config" where
  "getConfig h = config h"

text \<open>
  \<open>hub.getConfig().update(updates)\<close>: \<open>getConfig\<close> is public and returns the hub's
  own \<open>Config\<close> object, so an update made through it is the hub's configuration from
  then on.
\<close>

definition getConfig_update :: "OptionsUpdate \<Rightarrow> 'a BaseHub_scheme \<Rightarrow> 'a BaseHub_scheme" where
  "getConfig_update updates h = h\<lparr> config := Config_update updates (getConfig h) \<rparr>"

definition get_environment :: "Config \<Rightarrow> string option" where
  "get_environment c = (case opt_environment (options c) of Given s \<Rightarrow> Some s | _ \<Rightarrow> None)"

text \<open>
  \<open>now\<close> is what \<open>new Date().toISOString()\<close> gives at the call. The hub leaves
  \<open>sourceContext\<close> and \<open>userAgent\<close> out; the clients fill them in afterwards.
\<close>

definition buildEvent ::
  "'a BaseHub_scheme \<Rightarrow> string \<Rightarrow> string \<Rightarrow> ErrorLevel \<Rightarrow> JsError option \<Rightarrow> ErrorEvent" where
  "buildEvent h now msg lvl err =
     \<lparr> appId = opt_appId (options (config h)),
       commitHash = opt_commitHash (options (config h)),
       environment = get_environment (config h),
       level = lvl,
       message = msg,
       stackTrace = (case err of None \<Rightarrow> None | Some e \<Rightarrow> err_stack e),
       metadata =
         (if length (Object_keys (scope_extras (scope h))) > 0
          then Some (spread [] (scope_extras (scope h))) else None),
       sourceContext = None,
       userAgent = None,
       timestamp = Some now,
       tags =
         (if length (Object_keys (scope_tags (scope h))) > 0
          then Some (spread [] (scope_tags (scope h))) else None),
       user = scope_user (scope h) \<rparr>"

definition applyBeforeSend :: "'a BaseHub_scheme \<Rightarrow> ErrorEvent \<Rightarrow> ErrorEvent option" where
  "applyBeforeSend h event =
     (case opt_beforeSend (options (config h)) of
        None \<Rightarrow> Some event
      | Some beforeSend \<Rightarrow>
          (case beforeSend event of
             HookThrows left \<Rightarrow> Some left
           | HookReturns r \<Rightarrow> r))"

section \<open>Safe execution (packages/core/src/utils/safe.ts)\<close>

definition safeExecuteAsync :: "exn + 'a \<Rightarrow> 'a \<Rightarrow> 'a" where
  "safeExecuteAsync r fallback = (case r of Inl _ \<Rightarrow> fallback | Inr v \<Rightarrow> v)"

section \<open>Error normalisation (packages/core/src/utils/normalize.ts)\<close>

text \<open>
  The captured value, by the cases \<open>normalizeError\<close> tells apart. For an object that
  is not an \<open>Error\<close> the fields are typed as the casts of the source take them;
  \<open>obj_string\<close> is \<open>String(error)\<close>.
\<close>

record PlainObject =
  obj_message :: "string option"
  obj_reason :: "string option"
  obj_stack :: "string option"
  obj_name :: "string option"
  obj_string :: string

datatype thrown =
    ErrorInstance JsError
  | StringValue string
  | ObjectValue PlainObject
  | OtherValue string

text \<open>
  What the runtime supplies: \<open>new_Error\<close> is the \<open>Error\<close> constructor (the engine
  chooses the stack text), and \<open>parseStackTrace\<close> stands for the regular-expression
  matching of utils/stacktrace.ts, which only ever fills \<open>sourceContext\<close>.
\<close>

record runtime =
  new_Error :: "string \<Rightarrow> JsError"
  parseStackTrace :: "string option \<Rightarrow> SourceContext option"

definition normalizeError :: "runtime \<Rightarrow> thrown \<Rightarrow> JsError" where
  "normalizeError rt err =
     (case err of
        ErrorInstance e \<Rightarrow> e
      | StringValue s \<Rightarrow> new_Error rt s
      | ObjectValue errorObj \<Rightarrow>
          (let msg = (if \<not> falsy (obj_message errorObj) then the (obj_message errorObj)
                      else if \<not> falsy (obj_reason errorObj) then the (obj_reason errorObj)
                      else obj_string errorObj);
               e0 = new_Error rt msg;
               e1 = (if \<not> falsy (obj_stack errorObj) then e0\<lparr> err_stack := obj_stack errorObj \<rparr>
                     else e0)
           in (if \<not> falsy (obj_name errorObj) then e1\<lparr> err_name := the (obj_name errorObj) \<rparr>
               else e1))
      | OtherValue s \<Rightarrow> new_Error rt s)"

section \<open>Transports\<close>

subsection \<open>Base transport (packages/core/src/transport.ts)\<close>

text \<open>
  The JSON value a response body parses to. \<open>ResponseObject\<close> is an object (or array):
  whether it has a \<open>success\<close> key and, if so, whether the value is truthy, its \<open>id\<close>
  and its \<open>error\<close>. \<open>NonObject m\<close> is a number, string, boolean or \<open>null\<close>, on
  which the \<open>in\<close> operator throws a \<open>TypeError\<close> with message \<open>m\<close>.
\<close>

datatype response_json =
    NonObject string
  | ResponseObject "bool option" "string option" "string option"

definition parseResponse :: "response_json \<Rightarrow> exn + TransportResponse" where
  "parseResponse response =
     (case response of
        NonObject m \<Rightarrow> Inl (ErrorObj m)
      | ResponseObject s i e \<Rightarrow>
          (if s = Some True
           then Inr \<lparr> success = True, id = i, statusCode = None, error = None \<rparr>
           else Inr \<lparr> success = False, id = None, statusCode = None, error = e \<rparr>))"

text \<open>A response body: text that \<open>JSON.parse\<close> rejects (with a message), or a JSON value.\<close>

datatype body = InvalidJson string | ValidJson response_json

definition digit :: "nat \<Rightarrow> char" where
  "digit d = ''0123456789'' ! d"

fun show_nat :: "nat \<Rightarrow> string" where
  "show_nat n = (if n < 10 then [digit n] else show_nat (n div 10) @ [digit (n mod 10)])"

declare show_nat.simps [simp del]

text \<open>The result of the \<open>catch (error)\<close> blocks of both transports.\<close>

definition caught :: "exn \<Rightarrow> TransportResponse" where
  "caught e =
     \<lparr> success = False, id = None, statusCode = None,
       error = Some (case e of ErrorObj m \<Rightarrow> m | NonErrorValue \<Rightarrow> ''Unknown error'') \<rparr>"

subsection \<open>Fetch transport (packages/browser/src/transports/fetch.ts)\<close>

text \<open>
  What one \<open>fetch\<close> call does: the \<open>try\<close> block throws before a response arrives
  (building the request fails, or the network does), or a response arrives with a
  status and a body.
\<close>

datatype fetch_outcome = FetchRejects exn | FetchResponds nat body

definition response_ok :: "nat \<Rightarrow> bool" where
  "response_ok status = (200 \<le> status \<and> status \<le> 299)"

definition FetchTransport_send :: "(ErrorEvent \<Rightarrow> fetch_outcome) \<Rightarrow> ErrorEvent \<Rightarrow> TransportResponse" where
  "FetchTransport_send net event =
     (case net event of
        FetchRejects e \<Rightarrow> caught e
      | FetchResponds status b \<Rightarrow>
          (if \<not> response_ok status
           then \<lparr> success = False, id = None, statusCode = Some status,
                  error = Some (''HTTP '' @ show_nat status) \<rparr>
           else (case b of
                   InvalidJson m \<Rightarrow> caught (ErrorObj m)
                 | ValidJson data \<Rightarrow>
                     (case parseResponse data of
                        Inl e \<Rightarrow> caught e
                      | Inr r \<Rightarrow> r))))"

subsection \<open>Node transport (packages/node/src/transports/http.ts)\<close>

text \<open>
  What one request does: the \<open>try\<close> block throws, the request emits \<open>error\<close> or
  \<open>timeout\<close>, or the response ends with a status (possibly none) and a body. The
  promise is resolved by whichever comes first.
\<close>

datatype node_outcome =
    RequestThrows exn
  | RequestError string
  | RequestTimeout
  | NodeResponds "nat option" body

definition NodeTransport_send :: "(ErrorEvent \<Rightarrow> node_outcome) \<Rightarrow> ErrorEvent \<Rightarrow> TransportResponse" where
  "NodeTransport_send net event =
     (case net event of
        RequestThrows e \<Rightarrow> caught e
      | RequestError m \<Rightarrow> \<lparr> success = False, id = None, statusCode = None, error = Some m \<rparr>
      | RequestTimeout \<Rightarrow>
          \<lparr> success = False, id = None, statusCode = None, error = Some ''Request timeout'' \<rparr>
      | NodeResponds sc b \<Rightarrow>
          (let status = (case sc of None \<Rightarrow> 0 | Some n \<Rightarrow> n) in
           if 200 \<le> status \<and> status < 300
           then (case b of
                   InvalidJson m \<Rightarrow> \<lparr> success = True, id = None, statusCode = None, error = None \<rparr>
                 | ValidJson parsed \<Rightarrow>
                     (case parseResponse parsed of
                        Inl e \<Rightarrow> \<lparr> success = True, id = None, statusCode = None, error = None \<rparr>
                      | Inr r \<Rightarrow> r))
           else \<lparr> success = False, id = None, statusCode = Some status,
                  error = Some (''HTTP '' @ show_nat status) \<rparr>))"


section \<open>Browser client (packages/browser/src/client.ts)\<close>

subsection \<open>The page's environment\<close>

record navigator =
  nav_userAgent :: string
  nav_onLine :: bool

text \<open>
  The text stored under \<open>QUEUE_KEY\<close>, by what \<open>get\<close> makes of it: the empty string;
  text that \<open>JSON.parse\<close> rejects; text that parses to a value that is neither an array
  nor a string (\<open>null\<close>, a number, a boolean, an object), which \<open>get\<close> returns as it
  is; or the serialisation of a list of events. The elements of what is stored are taken
  to be events, as \<open>set\<close> writes them: an array of other values, or a string (which the
  loop of \<open>flushQueue\<close> would walk character by character), is not among the cases.
\<close>

datatype stored = EmptyText | Unparsable | NonArray | Stored "ErrorEvent list"

text \<open>What \<open>get\<close> returns: an array of events, or a value that is not an array.\<close>

datatype queue_value = Events "ErrorEvent list" | NonArrayValue

text \<open>
  \<open>ls_item\<close> is the value under \<open>QUEUE_KEY\<close> (\<open>None\<close>: no such key).
  \<open>ls_readFails\<close> and \<open>ls_writeFails\<close> say whether reading and writing throw
  (storage unavailable, access denied, quota exceeded).
\<close>

record localStorage =
  ls_item :: "stored option"
  ls_readFails :: bool
  ls_writeFails :: bool

text \<open>
  \<open>fetch_network n\<close> is what the network does with the \<open>n\<close>-th request;
  \<open>fetch_requests\<close> lists the events handed to \<open>transport.send\<close> so far, and
  \<open>console\<close> the warnings written. Diagnostic output of \<open>config.debug\<close> and the
  installation of listeners have no part in any operation below and are left out.
\<close>

record browser_env =
  fetch_network :: "nat \<Rightarrow> ErrorEvent \<Rightarrow> fetch_outcome"
  fetch_requests :: "ErrorEvent list"
  storage :: localStorage
  navigator :: "navigator option"
  console :: "string list"

subsection \<open>Queue storage\<close>

definition MAX_QUEUE_SIZE :: nat where
  "MAX_QUEUE_SIZE = 100"

text \<open>
  \<open>JSON.parse(JSON.stringify(e))\<close>: a key whose value is \<open>undefined\<close> is not
  written, so it is gone after the round trip.
\<close>

definition json_object :: "jsval js_object \<Rightarrow> jsval js_object" where
  "json_object obj = filter (\<lambda>p. snd p \<noteq> JUndefined) obj"

definition JSON_roundtrip :: "ErrorEvent \<Rightarrow> ErrorEvent" where
  "JSON_roundtrip e =
     e\<lparr> metadata := map_option json_object (metadata e),
        user := map_option json_object (user e) \<rparr>"

definition getItem :: "localStorage \<Rightarrow> exn + stored option" where
  "getItem ls = (if ls_readFails ls then Inl (ErrorObj ''localStorage'') else Inr (ls_item ls))"

definition setItem :: "ErrorEvent list \<Rightarrow> localStorage \<Rightarrow> exn + localStorage" where
  "setItem events ls =
     (if ls_writeFails ls then Inl (ErrorObj ''localStorage'')
      else Inr (ls\<lparr> ls_item := Some (Stored (map JSON_roundtrip events)) \<rparr>))"

definition removeItem :: "localStorage \<Rightarrow> exn + localStorage" where
  "removeItem ls =
     (if ls_writeFails ls then Inl (ErrorObj ''localStorage'')
      else Inr (ls\<lparr> ls_item := None \<rparr>))"

definition queue_get :: "localStorage \<Rightarrow> queue_value" where
  "queue_get ls =
     (case getItem ls of
        Inl _ \<Rightarrow> Events []
      | Inr None \<Rightarrow> Events []
      | Inr (Some EmptyText) \<Rightarrow> Events []
      | Inr (Some Unparsable) \<Rightarrow> Events []
      | Inr (Some NonArray) \<Rightarrow> NonArrayValue
      | Inr (Some (Stored events)) \<Rightarrow> Events events)"

definition queue_set :: "ErrorEvent list \<Rightarrow> localStorage \<Rightarrow> localStorage" where
  "queue_set events ls = (case setItem events ls of Inl _ \<Rightarrow> ls | Inr ls' \<Rightarrow> ls')"

definition queue_clear :: "localStorage \<Rightarrow> localStorage" where
  "queue_clear ls = (case removeItem ls of Inl _ \<Rightarrow> ls | Inr ls' \<Rightarrow> ls')"

subsection \<open>The client\<close>

record BrowserClient = BaseHub +
  isProcessingQueue :: bool

definition transport_send :: "ErrorEvent \<Rightarrow> browser_env \<Rightarrow> TransportResponse \<times> browser_env" where
  "transport_send event env =
     (FetchTransport_send (fetch_network env (length (fetch_requests env))) event,
      env\<lparr> fetch_requests := fetch_requests env @ [event] \<rparr>)"

text \<open>
  \<open>enqueue\<close> uses what \<open>get\<close> returns as an array, outside any \<open>try\<close>: on a value
  that is not an array, \<open>events.length\<close> or \<open>events.push\<close> throws a \<open>TypeError\<close>
  (its message depends on the value and the engine; the error is named by its kind here).
\<close>

definition enqueue :: "ErrorEvent \<Rightarrow> browser_env \<Rightarrow> exn + browser_env" where
  "enqueue event env =
     (case queue_get (storage env) of
        NonArrayValue \<Rightarrow> Inl (ErrorObj ''TypeError'')
      | Events events \<Rightarrow>
          (let events = (if length events \<ge> MAX_QUEUE_SIZE then tl events else events);
               events = events @ [event]
           in Inr (env\<lparr> storage := queue_set events (storage env) \<rparr>)))"

text \<open>
  The loop of \<open>flushQueue\<close>: \<open>remaining\<close> is the array of that name, returned as it
  is when the loop ends or breaks.
\<close>

fun flush_loop ::
  "ErrorEvent list \<Rightarrow> ErrorEvent list \<Rightarrow> browser_env \<Rightarrow> ErrorEvent list \<times> browser_env" where
  "flush_loop [] remaining env = (remaining, env)"
| "flush_loop (event # events) remaining env =
     (case transport_send event env of
        (result, env') \<Rightarrow>
          if \<not> success result then (remaining @ [event], env')
          else flush_loop events remaining env')"

text \<open>
  The result of \<open>flushQueue\<close>: the error its promise is rejected with, if any, the
  client and the environment. A value that is not an array is not iterable: the loop
  throws, \<open>finally\<close> resets the flag, and the promise is rejected.
\<close>

definition flushQueue ::
  "BrowserClient \<Rightarrow> browser_env \<Rightarrow> exn option \<times> BrowserClient \<times> browser_env" where
  "flushQueue c env =
     (if isProcessingQueue c then (None, c, env)
      else
        (case queue_get (storage env) of
           NonArrayValue \<Rightarrow> (Some (ErrorObj ''TypeError''), c\<lparr> isProcessingQueue := False \<rparr>, env)
         | Events events \<Rightarrow>
             (case flush_loop events [] env of
                (remaining, env') \<Rightarrow>
                  (None, c\<lparr> isProcessingQueue := False \<rparr>,
                   if length remaining < length events
                   then env'\<lparr> storage := queue_set remaining (storage env') \<rparr>
                   else env'))))"

text \<open>\<open>result.id || null\<close>\<close>

definition or_null :: "string option \<Rightarrow> string option" where
  "or_null s = (if falsy s then None else s)"

definition offline :: "browser_env \<Rightarrow> bool" where
  "offline env = (case navigator env of None \<Rightarrow> False | Some n \<Rightarrow> \<not> nav_onLine n)"

text \<open>
  \<open>enqueue_then_null\<close> is \<open>this.enqueue(processedEvent); return null\<close>: when
  \<open>enqueue\<close> throws, \<open>sendEvent\<close> throws with the environment as it was then.
\<close>

definition enqueue_then_null ::
  "ErrorEvent \<Rightarrow> browser_env \<Rightarrow> (exn + string option) \<times> browser_env" where
  "enqueue_then_null event env =
     (case enqueue event env of
        Inl e \<Rightarrow> (Inl e, env)
      | Inr env' \<Rightarrow> (Inr None, env'))"

definition BrowserClient_sendEvent ::
  "BrowserClient \<Rightarrow> ErrorEvent \<Rightarrow> browser_env \<Rightarrow> (exn + string option) \<times> browser_env" where
  "BrowserClient_sendEvent c event env =
     (case applyBeforeSend c event of
        None \<Rightarrow> (Inr None, env)
      | Some processedEvent \<Rightarrow>
          if offline env then enqueue_then_null processedEvent env
          else
            (case transport_send processedEvent env of
               (result, env') \<Rightarrow>
                 if \<not> success result then enqueue_then_null processedEvent env'
                 else (Inr (or_null (id result)), env')))"

text \<open>
  The event \<open>captureMessage\<close> hands to \<open>sendEvent\<close>. Reading \<open>navigator.userAgent\<close>
  throws when there is no \<open>navigator\<close>.
\<close>

definition BrowserClient_messageEvent ::
  "BrowserClient \<Rightarrow> string \<Rightarrow> ErrorLevel option \<Rightarrow> string \<Rightarrow> browser_env \<Rightarrow> exn + ErrorEvent" where
  "BrowserClient_messageEvent c msg lvl now env =
     (let event = buildEvent c now msg (case lvl of None \<Rightarrow> Warning | Some l \<Rightarrow> l) None in
      case navigator env of
        None \<Rightarrow> Inl (ErrorObj ''navigator is not defined'')
      | Some n \<Rightarrow> Inr (event\<lparr> userAgent := Some (nav_userAgent n) \<rparr>))"

definition BrowserClient_captureMessage ::
  "BrowserClient \<Rightarrow> string \<Rightarrow> ErrorLevel option \<Rightarrow> string \<Rightarrow> browser_env
     \<Rightarrow> string option \<times> browser_env" where
  "BrowserClient_captureMessage c msg lvl now env =
     (case BrowserClient_messageEvent c msg lvl now env of
        Inl e \<Rightarrow> (safeExecuteAsync (Inl e) None, env)
      | Inr event \<Rightarrow>
          (case BrowserClient_sendEvent c event env of
             (r, env') \<Rightarrow> (safeExecuteAsync r None, env')))"

text \<open>The event \<open>captureException\<close> hands to \<open>sendEvent\<close>.\<close>

definition BrowserClient_exceptionEvent ::
  "runtime \<Rightarrow> BrowserClient \<Rightarrow> thrown \<Rightarrow> ErrorLevel option \<Rightarrow> string \<Rightarrow> browser_env
     \<Rightarrow> exn + ErrorEvent" where
  "BrowserClient_exceptionEvent rt c err lvl now env =
     (let normalizedError = normalizeError rt err;
          event = buildEvent c now (err_message normalizedError)
                    (case lvl of None \<Rightarrow> Error | Some l \<Rightarrow> l) (Some normalizedError) in
      case navigator env of
        None \<Rightarrow> Inl (ErrorObj ''navigator is not defined'')
      | Some n \<Rightarrow>
          Inr (event\<lparr> userAgent := Some (nav_userAgent n),
                      sourceContext := parseStackTrace rt (err_stack normalizedError) \<rparr>))"

definition BrowserClient_captureException ::
  "runtime \<Rightarrow> BrowserClient \<Rightarrow> thrown \<Rightarrow> ErrorLevel option \<Rightarrow> string \<Rightarrow> browser_env
     \<Rightarrow> string option \<times> browser_env" where
  "BrowserClient_captureException rt c err lvl now env =
     (case BrowserClient_exceptionEvent rt c err lvl now env of
        Inl e \<Rightarrow> (safeExecuteAsync (Inl e) None, env)
      | Inr event \<Rightarrow>
          (case BrowserClient_sendEvent c event env of
             (r, env') \<Rightarrow> (safeExecuteAsync r None, env')))"

text \<open>
  The constructor. The flush it starts is run to its end here; calls that the event
  loop could interleave with it are not modelled. The constructor does not await the
  flush, so a rejection of its promise does not stop the construction.
\<close>

definition BrowserClient_new ::
  "ErrorTrackerOptions \<Rightarrow> browser_env \<Rightarrow> exn + BrowserClient \<times> browser_env" where
  "BrowserClient_new opts env =
     (case BaseHub_new opts of
        Inl e \<Rightarrow> Inl e
      | Inr h \<Rightarrow>
          Inr (snd (flushQueue
                 \<lparr> config = config h, scope = scope h, initialized = initialized h,
                   isProcessingQueue = False \<rparr> env)))"

subsection \<open>Package entry points (packages/browser/src/index.ts)\<close>

record browser_sdk =
  client :: "BrowserClient option"
  page :: browser_env

definition warn :: "string \<Rightarrow> browser_env \<Rightarrow> browser_env" where
  "warn m env = env\<lparr> console := console env @ [m] \<rparr>"

definition Browser_init :: "ErrorTrackerOptions \<Rightarrow> browser_sdk \<Rightarrow> exn + browser_sdk" where
  "Browser_init opts sdk =
     (case client sdk of
        Some _ \<Rightarrow> Inr (sdk\<lparr> page := warn ''ErrorTracker: Already initialized'' (page sdk) \<rparr>)
      | None \<Rightarrow>
          (case BrowserClient_new opts (page sdk) of
             Inl e \<Rightarrow> Inl e
           | Inr (c, env') \<Rightarrow> Inr \<lparr> client = Some c, page = env' \<rparr>))"

definition Browser_captureException ::
  "runtime \<Rightarrow> thrown \<Rightarrow> ErrorLevel option \<Rightarrow> string \<Rightarrow> browser_sdk
     \<Rightarrow> string option \<times> browser_sdk" where
  "Browser_captureException rt err lvl now sdk =
     (case client sdk of
        None \<Rightarrow>
          (None, sdk\<lparr> page := warn ''ErrorTracker: Not initialized. Call init() first.'' (page sdk) \<rparr>)
      | Some c \<Rightarrow>
          (case BrowserClient_captureException rt c err lvl now (page sdk) of
             (r, env') \<Rightarrow> (r, sdk\<lparr> page := env' \<rparr>)))"

definition Browser_captureMessage ::
  "string \<Rightarrow> ErrorLevel option \<Rightarrow> string \<Rightarrow> browser_sdk \<Rightarrow> string option \<times> browser_sdk" where
  "Browser_captureMessage msg lvl now sdk =
     (case client sdk of
        None \<Rightarrow>
          (None, sdk\<lparr> page := warn ''ErrorTracker: Not initialized. Call init() first.'' (page sdk) \<rparr>)
      | Some c \<Rightarrow>
          (case BrowserClient_captureMessage c msg lvl now (page sdk) of
             (r, env') \<Rightarrow> (r, sdk\<lparr> page := env' \<rparr>)))"

text \<open>\<open>destroy\<close> only detaches listeners; then the singleton is reset.\<close>

definition Browser_close :: "browser_sdk \<Rightarrow> browser_sdk" where
  "Browser_close sdk = sdk\<lparr> client := None \<rparr>"

section \<open>Node client (packages/node/src/client.ts, index.ts, globals.ts)\<close>

record node_env =
  http_network :: "nat \<Rightarrow> ErrorEvent \<Rightarrow> node_outcome"
  http_requests :: "ErrorEvent list"
  node_console :: "string list"

type_synonym NodeClient = BaseHub

definition node_transport_send :: "ErrorEvent \<Rightarrow> node_env \<Rightarrow> TransportResponse \<times> node_env" where
  "node_transport_send event env =
     (NodeTransport_send (http_network env (length (http_requests env))) event,
      env\<lparr> http_requests := http_requests env @ [event] \<rparr>)"

definition NodeClient_sendEvent ::
  "NodeClient \<Rightarrow> ErrorEvent \<Rightarrow> node_env \<Rightarrow> string option \<times> node_env" where
  "NodeClient_sendEvent c event env =
     (case applyBeforeSend c event of
        None \<Rightarrow> (None, env)
      | Some processedEvent \<Rightarrow>
          (case node_transport_send processedEvent env of
             (result, env') \<Rightarrow>
               if \<not> success result then (None, env')
               else (or_null (id result), env')))"

definition NodeClient_messageEvent ::
  "NodeClient \<Rightarrow> string \<Rightarrow> ErrorLevel option \<Rightarrow> string \<Rightarrow> ErrorEvent" where
  "NodeClient_messageEvent c msg lvl now =
     buildEvent c now msg (case lvl of None \<Rightarrow> Warning | Some l \<Rightarrow> l) None"

definition NodeClient_captureMessage ::
  "NodeClient \<Rightarrow> string \<Rightarrow> ErrorLevel option \<Rightarrow> string \<Rightarrow> node_env
     \<Rightarrow> string option \<times> node_env" where
  "NodeClient_captureMessage c msg lvl now env =
     safeExecuteAsync
       (Inr (NodeClient_sendEvent c (NodeClient_messageEvent c msg lvl now) env))
       (None, env)"

definition NodeClient_exceptionEvent ::
  "runtime \<Rightarrow> NodeClient \<Rightarrow> thrown \<Rightarrow> ErrorLevel option \<Rightarrow> string \<Rightarrow> ErrorEvent" where
  "NodeClient_exceptionEvent rt c err lvl now =
     (let normalizedError = normalizeError rt err;
          event = buildEvent c now (err_message normalizedError)
                    (case lvl of None \<Rightarrow> Error | Some l \<Rightarrow> l) (Some normalizedError)
      in event\<lparr> sourceContext := parseStackTrace rt (err_stack normalizedError) \<rparr>)"

definition NodeClient_captureException ::
  "runtime \<Rightarrow> NodeClient \<Rightarrow> thrown \<Rightarrow> ErrorLevel option \<Rightarrow> string \<Rightarrow> node_env
     \<Rightarrow> string option \<times> node_env" where
  "NodeClient_captureException rt c err lvl now env =
     safeExecuteAsync
       (Inr (NodeClient_sendEvent c (NodeClient_exceptionEvent rt c err lvl now) env))
       (None, env)"

record node_sdk =
  global_client :: "NodeClient option"
  process :: node_env

definition node_warn :: "string \<Rightarrow> node_env \<Rightarrow> node_env" where
  "node_warn m env = env\<lparr> node_console := node_console env @ [m] \<rparr>"

definition Node_init :: "ErrorTrackerOptions \<Rightarrow> node_sdk \<Rightarrow> exn + node_sdk" where
  "Node_init opts sdk =
     (case global_client sdk of
        Some _ \<Rightarrow> Inr (sdk\<lparr> process := node_warn ''ErrorTracker: Already initialized'' (process sdk) \<rparr>)
      | None \<Rightarrow>
          (case BaseHub_new opts of
             Inl e \<Rightarrow> Inl e
           | Inr c \<Rightarrow> Inr (sdk\<lparr> global_client := Some c \<rparr>)))"

definition Node_captureException ::
  "runtime \<Rightarrow> thrown \<Rightarrow> ErrorLevel option \<Rightarrow> string \<Rightarrow> node_sdk \<Rightarrow> string option \<times> node_sdk" where
  "Node_captureException rt err lvl now sdk =
     (case global_client sdk of
        None \<Rightarrow>
          (None, sdk\<lparr> process :=
             node_warn ''ErrorTracker: Not initialized. Call init() first.'' (process sdk) \<rparr>)
      | Some c \<Rightarrow>
          (case NodeClient_captureException rt c err lvl now (process sdk) of
             (r, env') \<Rightarrow> (r, sdk\<lparr> process := env' \<rparr>)))"

definition Node_captureMessage ::
  "string \<Rightarrow> ErrorLevel option \<Rightarrow> string \<Rightarrow> node_sdk \<Rightarrow> string option \<times> node_sdk" where
  "Node_captureMessage msg lvl now sdk =
     (case global_client sdk of
        None \<Rightarrow>
          (None, sdk\<lparr> process :=
             node_warn ''ErrorTracker: Not initialized. Call init() first.'' (process sdk) \<rparr>)
      | Some c \<Rightarrow>
          (case NodeClient_captureMessage c msg lvl now (process sdk) of
             (r, env') \<Rightarrow> (r, sdk\<lparr> process := env' \<rparr>)))"

definition Node_close :: "node_sdk \<Rightarrow> node_sdk" where
  "Node_close sdk = sdk\<lparr> global_client := None \<rparr>"


section \<open>The tags map as a shared object\<close>

text \<open>
  \<open>this.scope.tags\<close> and the \<open>tags\<close> of a built event are references to objects.
  \<open>setTag\<close> writes into the object the scope refers to; \<open>setTags\<close> and the spread
  in \<open>buildEvent\<close> make a new object. Here the objects live in a store, a reference
  is a position in it, and a new object goes to the end.
\<close>

type_synonym addr = nat

record tag_store =
  scope_tags_ref :: addr
  objects :: "string js_object list"

definition scope_tags_of :: "tag_store \<Rightarrow> string js_object" where
  "scope_tags_of s = objects s ! scope_tags_ref s"

definition setTag_ref :: "string \<Rightarrow> string \<Rightarrow> tag_store \<Rightarrow> tag_store" where
  "setTag_ref key val s =
     s\<lparr> objects := (objects s)[scope_tags_ref s := assign key val (scope_tags_of s)] \<rparr>"

definition setTags_ref :: "string js_object \<Rightarrow> tag_store \<Rightarrow> tag_store" where
  "setTags_ref ts s =
     s\<lparr> scope_tags_ref := length (objects s),
        objects := objects s @ [spread (scope_tags_of s) ts] \<rparr>"

text \<open>The \<open>tags\<close> field of \<open>buildEvent\<close>: the reference the event gets, and the store.\<close>

definition buildEvent_tags_ref :: "tag_store \<Rightarrow> addr option \<times> tag_store" where
  "buildEvent_tags_ref s =
     (if length (Object_keys (scope_tags_of s)) > 0
      then (Some (length (objects s)), s\<lparr> objects := objects s @ [spread [] (scope_tags_of s)] \<rparr>)
      else (None, s))"

text \<open>What an event's \<open>tags\<close> reads as in a given store.\<close>

definition event_tags :: "tag_store \<Rightarrow> addr option \<Rightarrow> string js_object option" where
  "event_tags s r = map_option (\<lambda>a. objects s ! a) r"

datatype tag_mutation = SetTag string string | SetTags "string js_object"

fun mutate_ref :: "tag_store \<Rightarrow> tag_mutation \<Rightarrow> tag_store" where
  "mutate_ref s (SetTag key val) = setTag_ref key val s"
| "mutate_ref s (SetTags ts) = setTags_ref ts s"

fun mutate :: "'a BaseHub_scheme \<Rightarrow> tag_mutation \<Rightarrow> 'a BaseHub_scheme" where
  "mutate h (SetTag key val) = setTag key val h"
| "mutate h (SetTags ts) = setTags ts h"


section \<open>Sequences of operations\<close>

text \<open>One \<open>enqueue\<close> after the other, stopping where one throws.\<close>

fun enqueue_all :: "ErrorEvent list \<Rightarrow> browser_env \<Rightarrow> exn + browser_env" where
  "enqueue_all [] env = Inr env"
| "enqueue_all (e # es) env =
     (case enqueue e env of
        Inl x \<Rightarrow> Inl x
      | Inr env' \<Rightarrow> enqueue_all es env')"

definition storage_works :: "localStorage \<Rightarrow> bool" where
  "storage_works ls = (\<not> ls_readFails ls \<and> \<not> ls_writeFails ls)"

section \<open>Concrete inputs\<close>

definition opts_valid :: ErrorTrackerOptions where
  "opts_valid =
     \<lparr> opt_dsn = Some ''https://x'', opt_appId = Some ''a'', opt_commitHash = Some ''c1'',
       opt_environment = Given ''Production'', opt_apiKey = None, opt_autoCapture = Absent,
       opt_debug = Absent, opt_beforeSend = None, opt_tags = None, opt_user = None \<rparr>"

definition opts_missing_environment :: ErrorTrackerOptions where
  "opts_missing_environment =
     \<lparr> opt_dsn = Some ''https://x'', opt_appId = Some ''a'', opt_commitHash = Some ''c1'',
       opt_environment = Absent, opt_apiKey = None, opt_autoCapture = Absent,
       opt_debug = Absent, opt_beforeSend = None, opt_tags = None, opt_user = None \<rparr>"

definition hub0 :: BaseHub where
  "hub0 =
     \<lparr> config = \<lparr> options = merge_defaults opts_valid \<rparr>,
       scope = \<lparr> scope_tags = [], scope_user = None, scope_extras = [] \<rparr>,
       initialized = True \<rparr>"

definition ev1 :: ErrorEvent where
  "ev1 = buildEvent hub0 ''t0'' ''first'' Warning None"

definition ev2 :: ErrorEvent where
  "ev2 = buildEvent hub0 ''t0'' ''second'' Warning None"

definition ev3 :: ErrorEvent where
  "ev3 = buildEvent hub0 ''t0'' ''third'' Warning None"

definition events_101 :: "ErrorEvent list" where
  "events_101 = map (\<lambda>n. buildEvent hub0 ''t0'' (show_nat n) Warning None) [0..<101]"

definition accepted :: fetch_outcome where
  "accepted = FetchResponds 200 (ValidJson (ResponseObject (Some True) (Some ''evt-1'') None))"

definition fails_on_second :: "nat \<Rightarrow> ErrorEvent \<Rightarrow> fetch_outcome" where
  "fails_on_second n event = (if n = 1 then FetchResponds 503 (InvalidJson []) else accepted)"

definition page_empty :: "bool \<Rightarrow> browser_env" where
  "page_empty online =
     \<lparr> fetch_network = (\<lambda>n event. accepted), fetch_requests = [],
       storage = \<lparr> ls_item = None, ls_readFails = False, ls_writeFails = False \<rparr>,
       navigator = Some \<lparr> nav_userAgent = ''ua'', nav_onLine = online \<rparr>,
       console = [] \<rparr>"

definition page_with_three :: browser_env where
  "page_with_three =
     \<lparr> fetch_network = fails_on_second, fetch_requests = [],
       storage = \<lparr> ls_item = Some (Stored [ev1, ev2, ev3]), ls_readFails = False,
                   ls_writeFails = False \<rparr>,
       navigator = Some \<lparr> nav_userAgent = ''ua'', nav_onLine = True \<rparr>,
       console = [] \<rparr>"

definition node_process :: node_env where
  "node_process =
     \<lparr> http_network = (\<lambda>n event. NodeResponds (Some 200)
          (ValidJson (ResponseObject (Some True) (Some ''evt-1'') None))),
       http_requests = [], node_console = [] \<rparr>"

definition runtime0 :: runtime where
  "runtime0 =
     \<lparr> new_Error = (\<lambda>m. \<lparr> err_message = m, err_stack = Some ''Error: at x.js:1:1'',
                            err_name = ''Error'' \<rparr>),
       parseStackTrace = (\<lambda>s. None) \<rparr>"

definition client0 :: BrowserClient where
  "client0 =
     \<lparr> config = config hub0, scope = scope hub0, initialized = True,
       isProcessingQueue = False \<rparr>"

definition client_with_hook :: "(ErrorEvent \<Rightarrow> hook_result) \<Rightarrow> BrowserClient" where
  "client_with_hook hook =
     \<lparr> config = \<lparr> options = (merge_defaults opts_valid)\<lparr> opt_beforeSend := Some hook \<rparr> \<rparr>,
       scope = scope hub0, initialized = True, isProcessingQueue = False \<rparr>"

definition node_client_with_hook :: "(ErrorEvent \<Rightarrow> hook_result) \<Rightarrow> NodeClient" where
  "node_client_with_hook hook =
     \<lparr> config = \<lparr> options = (merge_defaults opts_valid)\<lparr> opt_beforeSend := Some hook \<rparr> \<rparr>,
       scope = scope hub0, initialized = True \<rparr>"

definition hub_tagged :: BaseHub where
  "hub_tagged = hub0\<lparr> scope := (scope hub0)\<lparr> scope_tags := [(''version'', ''1.0.0'')] \<rparr> \<rparr>"

definition store_tagged :: tag_store where
  "store_tagged = \<lparr> scope_tags_ref = 0, objects = [[(''version'', ''1.0.0'')]] \<rparr>"

definition page_non_array :: browser_env where
  "page_non_array =
     \<lparr> fetch_network = (\<lambda>n event. accepted), fetch_requests = [],
       storage = \<lparr> ls_item = Some NonArray, ls_readFails = False, ls_writeFails = False \<rparr>,
       navigator = Some \<lparr> nav_userAgent = ''ua'', nav_onLine = False \<rparr>,
       console = [] \<rparr>"



definition clear_appId :: OptionsUpdate where
  "clear_appId =
     \<lparr> upd_dsn = Absent, upd_appId = Undefined, upd_commitHash = Absent,
       upd_environment = Absent, upd_apiKey = Absent, upd_autoCapture = Absent,
       upd_debug = Absent, upd_beforeSend = Absent, upd_tags = Absent, upd_user = Absent \<rparr>"

definition set_environment_staging :: OptionsUpdate where
  "set_environment_staging =
     \<lparr> upd_dsn = Absent, upd_appId = Absent, upd_commitHash = Absent,
       upd_environment = Given ''Staging'', upd_apiKey = Absent, upd_autoCapture = Absent,
       upd_debug = Absent, upd_beforeSend = Absent, upd_tags = Absent, upd_user = Absent \<rparr>"

definition sdk_fresh :: browser_sdk where
  "sdk_fresh = \<lparr> client = None, page = page_empty True \<rparr>"

definition sdk_running :: browser_sdk where
  "sdk_running = \<lparr> client = Some client0, page = page_empty True \<rparr>"

definition node_sdk_fresh :: node_sdk where
  "node_sdk_fresh = \<lparr> global_client = None, process = node_process \<rparr>"

definition node_sdk_running :: node_sdk where
  "node_sdk_running = \<lparr> global_client = Some hub0, process = node_process \<rparr>"


section \<open>Objects\<close>

lemma assign_not_Nil [simp]: "assign k v obj \<noteq> []"
  by (cases obj) simp_all

lemma spread_not_Nil: "a \<noteq> [] \<Longrightarrow> spread a b \<noteq> []"
  by (induction b arbitrary: a) simp_all

lemma spread_Nil_iff [simp]: "spread [] b = [] \<longleftrightarrow> b = []"
  by (cases b) (simp_all add: spread_not_Nil)

lemma map_of_assign: "map_of (assign k v obj) = (map_of obj)(k \<mapsto> v)"
  by (induction obj) (auto simp: fun_eq_iff)

lemma map_of_delete_key: "map_of (delete_key k obj) = (map_of obj)(k := None)"
  by (induction obj) (auto simp: delete_key_def fun_eq_iff)

lemma set_assign: "set (assign k v obj) \<subseteq> insert (k, v) (set obj)"
  by (induction obj) auto

section \<open>Configuration\<close>

lemma merge_defaults_required [simp]:
  "opt_dsn (merge_defaults opts) = opt_dsn opts"
  "opt_appId (merge_defaults opts) = opt_appId opts"
  "opt_commitHash (merge_defaults opts) = opt_commitHash opts"
  "opt_beforeSend (merge_defaults opts) = opt_beforeSend opts"
  "opt_environment (merge_defaults opts) = or_default ''Development'' (opt_environment opts)"
  by (simp_all add: merge_defaults_def)

lemma falsy_iff: "falsy s \<longleftrightarrow> \<not> (\<exists>t. s = Some t \<and> t \<noteq> [])"
  by (cases s) (simp_all add: falsy_def)

lemma includes_env_merged:
  "includes_env VALID_ENVIRONMENTS (or_default ''Development'' g) \<longleftrightarrow>
     g = Absent \<or> g \<in> {Given ''Production'', Given ''Staging'', Given ''Development''}"
  by (cases g) (auto simp: includes_env_def or_default_def VALID_ENVIRONMENTS_def)

lemma validate_Inr_iff:
  "validate opts = Inr () \<longleftrightarrow>
     \<not> falsy (opt_dsn opts) \<and> \<not> falsy (opt_appId opts) \<and> \<not> falsy (opt_commitHash opts) \<and>
     includes_env VALID_ENVIRONMENTS (opt_environment opts)"
  by (simp add: validate_def)

lemma validate_Inl:
  "validate opts \<noteq> Inr () \<Longrightarrow> \<exists>m. validate opts = Inl (ErrorObj (''ErrorTracker: '' @ m))"
  by (simp add: validate_def split: if_splits)

lemma Config_new_Inr_iff:
  "Config_new opts = Inr c \<longleftrightarrow>
     validate (merge_defaults opts) = Inr () \<and> c = \<lparr> options = merge_defaults opts \<rparr>"
  by (auto simp: Config_new_def Let_def split: sum.splits)

lemma hub0_constructed: "BaseHub_new opts_valid = Inr hub0"
  by (simp add: BaseHub_new_def hub0_def opts_valid_def Config_new_def validate_def falsy_def
        includes_env_def VALID_ENVIRONMENTS_def merge_defaults_def or_default_def)

lemma hub0_config: "Config_new opts_valid = Inr (config hub0)"
  using hub0_constructed by (simp add: BaseHub_new_def hub0_def split: sum.splits)

text \<open>
  C3, as stated, fails: an option set that has no \<open>environment\<close> key at all is accepted,
  because \<open>DEFAULT_OPTIONS\<close> supplies \<open>Development\<close> before \<open>validate\<close> runs.
\<close>

theorem Config_new_environment_absent_counterexample:
  "opt_environment opts_missing_environment = Absent \<and>
   \<not> isl (Config_new opts_missing_environment)"
  by (simp add: opts_missing_environment_def Config_new_def validate_def falsy_def
        includes_env_def VALID_ENVIRONMENTS_def merge_defaults_def or_default_def)

text \<open>
  C3 (amended). Constructing a \<open>Config\<close> succeeds exactly when \<open>dsn\<close>, \<open>appId\<close> and
  \<open>commitHash\<close> are present and non-empty and \<open>environment\<close> is either left out (it
  then defaults to \<open>Development\<close>) or given as one of \<open>Production\<close>, \<open>Staging\<close>,
  \<open>Development\<close>. In every other case (one of the three strings absent or empty, or
  an \<open>environment\<close> that is given but is \<open>undefined\<close> or not a recognised value) the
  constructor throws an error whose message starts with \<open>ErrorTracker: \<close>.
\<close>

theorem Config_new_succeeds_exactly:
  "(if (\<exists>d. opt_dsn opts = Some d \<and> d \<noteq> []) \<and>
       (\<exists>a. opt_appId opts = Some a \<and> a \<noteq> []) \<and>
       (\<exists>h. opt_commitHash opts = Some h \<and> h \<noteq> []) \<and>
       (opt_environment opts = Absent \<or>
        opt_environment opts \<in> {Given ''Production'', Given ''Staging'', Given ''Development''})
    then Config_new opts = Inr \<lparr> options = merge_defaults opts \<rparr>
    else (\<exists>m. Config_new opts = Inl (ErrorObj (''ErrorTracker: '' @ m))))"
  (is "if ?V then ?A else ?B")
proof -
  have V: "?V \<longleftrightarrow> validate (merge_defaults opts) = Inr ()"
    by (simp add: validate_Inr_iff includes_env_merged falsy_iff)
  show ?thesis
  proof (cases "validate (merge_defaults opts) = Inr ()")
    case True
    then have ?A by (simp add: Config_new_def)
    with True show ?thesis unfolding V by simp
  next
    case False
    from validate_Inl [OF False] obtain m
      where "validate (merge_defaults opts) = Inl (ErrorObj (''ErrorTracker: '' @ m))" ..
    then have ?B by (simp add: Config_new_def)
    with False show ?thesis unfolding V by simp
  qed
qed

theorem Config_new_succeeds_exactly_witness:
  "Config_new opts_valid = Inr \<lparr> options = merge_defaults opts_valid \<rparr> \<and>
   (\<exists>m. Config_new (opts_valid\<lparr> opt_environment := Given ''QA'' \<rparr>)
           = Inl (ErrorObj (''ErrorTracker: '' @ m))) \<and>
   (\<exists>m. Config_new (opts_valid\<lparr> opt_appId := Some [] \<rparr>)
           = Inl (ErrorObj (''ErrorTracker: '' @ m)))"
  using Config_new_succeeds_exactly [of opts_valid]
    Config_new_succeeds_exactly [of "opts_valid\<lparr> opt_environment := Given ''QA'' \<rparr>"]
    Config_new_succeeds_exactly [of "opts_valid\<lparr> opt_appId := Some [] \<rparr>"]
  by (simp add: opts_valid_def)

section \<open>Scope\<close>

lemma setExtra_keeps_defined:
  assumes "JUndefined \<notin> snd ` set (scope_extras (scope h))"
  shows "JUndefined \<notin> snd ` set (scope_extras (scope (setExtra k v h)))"
  using assms set_assign [of k v "scope_extras (scope h)"]
  by (auto simp: setExtra_def delete_key_def)

lemma setExtra_undefined_removes:
  "lookup (scope_extras (scope (setExtra k JUndefined h))) k = None"
  by (simp add: setExtra_def lookup_def map_of_delete_key)

lemma setExtra_undefined_no_key:
  "k \<notin> set (Object_keys (scope_extras (scope (setExtra k JUndefined h))))"
  by (auto simp: setExtra_def Object_keys_def delete_key_def)

text \<open>
  C4. \<open>setExtra\<close> deletes a key that is assigned \<open>undefined\<close> (the three lemmas above),
  but \<open>setExtras\<close> does not: on a freshly constructed hub,
  \<open>setExtras({ request: undefined })\<close> leaves the key \<open>request\<close> in the extras map
  holding \<open>undefined\<close>, and the next built event carries a \<open>metadata\<close> object with
  that key.
\<close>

theorem setExtras_stores_undefined:
  "BaseHub_new opts_valid = Inr hub0 \<and>
   scope_extras (scope (setExtras [(''request'', JUndefined)] hub0)) = [(''request'', JUndefined)] \<and>
   lookup (scope_extras (scope (setExtras [(''request'', JUndefined)] hub0))) ''request''
     = Some JUndefined \<and>
   metadata (buildEvent (setExtras [(''request'', JUndefined)] hub0) ''t0'' ''m'' Warning None)
     = Some [(''request'', JUndefined)]"
  by (simp add: hub0_constructed setExtras_def hub0_def lookup_def buildEvent_def Object_keys_def)

section \<open>Building events\<close>

lemma Config_new_validated:
  assumes "Config_new opts = Inr c"
  shows "validate (options c) = Inr ()" and "options c = merge_defaults opts"
  using assms by (simp_all add: Config_new_Inr_iff)

lemma BaseHub_new_validated:
  assumes "BaseHub_new opts = Inr h"
  shows "validate (options (config h)) = Inr ()" and "options (config h) = merge_defaults opts"
proof -
  from assms obtain c where c: "Config_new opts = Inr c" and h: "config h = c"
    by (auto simp: BaseHub_new_def split: sum.splits)
  from Config_new_validated [OF c] h
  show "validate (options (config h)) = Inr ()" and "options (config h) = merge_defaults opts"
    by simp_all
qed

lemma scope_mutators_keep_config:
  "config (setUser u h) = config h"
  "config (setTag k v h) = config h"
  "config (setTags ts h) = config h"
  "config (setExtra k x h) = config h"
  "config (setExtras es h) = config h"
  by (simp_all add: setUser_def setTag_def setTags_def setExtra_def setExtras_def)

lemma validate_required:
  assumes "validate opts = Inr ()"
  shows "\<exists>a. opt_appId opts = Some a \<and> a \<noteq> []"
    and "\<exists>h. opt_commitHash opts = Some h \<and> h \<noteq> []"
    and "\<exists>e. opt_environment opts = Given e \<and> e \<in> set VALID_ENVIRONMENTS"
proof -
  from assms have a: "\<not> falsy (opt_appId opts)" and h: "\<not> falsy (opt_commitHash opts)"
    and e: "includes_env VALID_ENVIRONMENTS (opt_environment opts)"
    by (simp_all add: validate_Inr_iff)
  from a show "\<exists>a. opt_appId opts = Some a \<and> a \<noteq> []"
    by (simp add: falsy_iff)
  from h show "\<exists>h. opt_commitHash opts = Some h \<and> h \<noteq> []"
    by (simp add: falsy_iff)
  from e show "\<exists>e. opt_environment opts = Given e \<and> e \<in> set VALID_ENVIRONMENTS"
    by (cases "opt_environment opts") (simp_all add: includes_env_def)
qed

text \<open>
  C5, as stated, fails: \<open>getConfig\<close> is public and \<open>Config.update\<close> does not validate, so
  after \<open>hub.getConfig().update({ appId: undefined })\<close> on a hub constructed from valid
  options the built event has no \<open>appId\<close>.
\<close>

theorem buildEvent_after_update_counterexample:
  "BaseHub_new opts_valid = Inr hub0 \<and>
   appId (buildEvent (getConfig_update clear_appId hub0) ''t0'' ''hello'' Warning None) = None"
  by (simp add: hub0_constructed buildEvent_def getConfig_update_def getConfig_def
        Config_update_def clear_appId_def overwrite_def)

text \<open>
  C5 (amended). Every event that \<open>buildEvent\<close> returns has the level and the message of
  the call, and takes \<open>appId\<close>, \<open>commitHash\<close> and \<open>environment\<close> from the hub's
  configuration as it is at the call. While that configuration satisfies the constructor's
  validation (as it does from construction on, until \<open>Config.update\<close> puts an absent, empty
  or unrecognised value there) the three are present: \<open>appId\<close> and \<open>commitHash\<close> are the
  configured non-empty strings and \<open>environment\<close> is the configured one of the three
  values. Whatever the configuration, \<open>tags\<close> has no value exactly when the scope's tags
  map has no key, and is never an empty map; the same holds for \<open>metadata\<close> and the
  scope's extras; and serialising the event and reading it back does not bring either
  field back.
\<close>

theorem buildEvent_required_present_empty_omitted:
  "(validate (options (config h)) = Inr () \<longrightarrow>
      (\<exists>a. appId (buildEvent h now msg lvl err) = Some a \<and> a \<noteq> [] \<and>
           opt_appId (options (config h)) = Some a) \<and>
      (\<exists>c. commitHash (buildEvent h now msg lvl err) = Some c \<and> c \<noteq> [] \<and>
           opt_commitHash (options (config h)) = Some c) \<and>
      (\<exists>e. environment (buildEvent h now msg lvl err) = Some e \<and> e \<in> set VALID_ENVIRONMENTS \<and>
           opt_environment (options (config h)) = Given e)) \<and>
   appId (buildEvent h now msg lvl err) = opt_appId (options (config h)) \<and>
   commitHash (buildEvent h now msg lvl err) = opt_commitHash (options (config h)) \<and>
   (\<forall>e. environment (buildEvent h now msg lvl err) = Some e
          \<longleftrightarrow> opt_environment (options (config h)) = Given e) \<and>
   level (buildEvent h now msg lvl err) = lvl \<and>
   message (buildEvent h now msg lvl err) = msg \<and>
   (tags (buildEvent h now msg lvl err) = None \<longleftrightarrow> Object_keys (scope_tags (scope h)) = []) \<and>
   tags (buildEvent h now msg lvl err) \<noteq> Some [] \<and>
   (metadata (buildEvent h now msg lvl err) = None
      \<longleftrightarrow> Object_keys (scope_extras (scope h)) = []) \<and>
   metadata (buildEvent h now msg lvl err) \<noteq> Some [] \<and>
   (Object_keys (scope_tags (scope h)) = []
      \<longrightarrow> tags (JSON_roundtrip (buildEvent h now msg lvl err)) = None) \<and>
   (Object_keys (scope_extras (scope h)) = []
      \<longrightarrow> metadata (JSON_roundtrip (buildEvent h now msg lvl err)) = None)"
proof -
  have copied: "appId (buildEvent h now msg lvl err) = opt_appId (options (config h))"
    "commitHash (buildEvent h now msg lvl err) = opt_commitHash (options (config h))"
    by (simp_all add: buildEvent_def)
  have env: "\<forall>e. environment (buildEvent h now msg lvl err) = Some e
          \<longleftrightarrow> opt_environment (options (config h)) = Given e"
    by (cases "opt_environment (options (config h))")
       (simp_all add: buildEvent_def get_environment_def)
  have required: "validate (options (config h)) = Inr () \<longrightarrow>
      (\<exists>a. appId (buildEvent h now msg lvl err) = Some a \<and> a \<noteq> [] \<and>
           opt_appId (options (config h)) = Some a) \<and>
      (\<exists>c. commitHash (buildEvent h now msg lvl err) = Some c \<and> c \<noteq> [] \<and>
           opt_commitHash (options (config h)) = Some c) \<and>
      (\<exists>e. environment (buildEvent h now msg lvl err) = Some e \<and> e \<in> set VALID_ENVIRONMENTS \<and>
           opt_environment (options (config h)) = Given e)"
  proof
    assume v: "validate (options (config h)) = Inr ()"
    from validate_required(1) [OF v] copied(1)
    have "\<exists>a. appId (buildEvent h now msg lvl err) = Some a \<and> a \<noteq> [] \<and>
           opt_appId (options (config h)) = Some a"
      by auto
    moreover from validate_required(2) [OF v] copied(2)
    have "\<exists>c. commitHash (buildEvent h now msg lvl err) = Some c \<and> c \<noteq> [] \<and>
           opt_commitHash (options (config h)) = Some c"
      by auto
    moreover from validate_required(3) [OF v] env
    have "\<exists>e. environment (buildEvent h now msg lvl err) = Some e \<and> e \<in> set VALID_ENVIRONMENTS \<and>
           opt_environment (options (config h)) = Given e"
      by auto
    ultimately show "(\<exists>a. appId (buildEvent h now msg lvl err) = Some a \<and> a \<noteq> [] \<and>
           opt_appId (options (config h)) = Some a) \<and>
      (\<exists>c. commitHash (buildEvent h now msg lvl err) = Some c \<and> c \<noteq> [] \<and>
           opt_commitHash (options (config h)) = Some c) \<and>
      (\<exists>e. environment (buildEvent h now msg lvl err) = Some e \<and> e \<in> set VALID_ENVIRONMENTS \<and>
           opt_environment (options (config h)) = Given e)"
      by blast
  qed
  have "level (buildEvent h now msg lvl err) = lvl"
    and "message (buildEvent h now msg lvl err) = msg"
    by (simp_all add: buildEvent_def)
  moreover have "tags (buildEvent h now msg lvl err) = None
      \<longleftrightarrow> Object_keys (scope_tags (scope h)) = []"
    and "tags (buildEvent h now msg lvl err) \<noteq> Some []"
    by (simp_all add: buildEvent_def Object_keys_def)
  moreover have "metadata (buildEvent h now msg lvl err) = None
      \<longleftrightarrow> Object_keys (scope_extras (scope h)) = []"
    and "metadata (buildEvent h now msg lvl err) \<noteq> Some []"
    by (simp_all add: buildEvent_def Object_keys_def)
  moreover have "Object_keys (scope_tags (scope h)) = []
      \<longrightarrow> tags (JSON_roundtrip (buildEvent h now msg lvl err)) = None"
    and "Object_keys (scope_extras (scope h)) = []
      \<longrightarrow> metadata (JSON_roundtrip (buildEvent h now msg lvl err)) = None"
    by (simp_all add: JSON_roundtrip_def buildEvent_def Object_keys_def)
  ultimately show ?thesis
    using required copied env by blast
qed

theorem buildEvent_required_present_empty_omitted_witness:
  "validate (options (config hub0)) = Inr () \<and>
   appId (buildEvent hub0 ''t0'' ''hello'' Warning None) = Some ''a'' \<and>
   commitHash (buildEvent hub0 ''t0'' ''hello'' Warning None) = Some ''c1'' \<and>
   environment (buildEvent hub0 ''t0'' ''hello'' Warning None) = Some ''Production'' \<and>
   level (buildEvent hub0 ''t0'' ''hello'' Warning None) = Warning \<and>
   message (buildEvent hub0 ''t0'' ''hello'' Warning None) = ''hello'' \<and>
   tags (buildEvent hub0 ''t0'' ''hello'' Warning None) = None \<and>
   metadata (buildEvent hub0 ''t0'' ''hello'' Warning None) = None \<and>
   validate (options (config (getConfig_update set_environment_staging hub0))) = Inr () \<and>
   environment (buildEvent (getConfig_update set_environment_staging hub0)
      ''t0'' ''hello'' Warning None) = Some ''Staging''"
proof -
  have v: "validate (options (config hub0)) = Inr ()"
    by (rule BaseHub_new_validated(1) [OF hub0_constructed])
  have o: "options (config hub0) = merge_defaults opts_valid"
    by (rule BaseHub_new_validated(2) [OF hub0_constructed])
  have s: "options (config (getConfig_update set_environment_staging hub0))
      = (merge_defaults opts_valid)\<lparr> opt_environment := Given ''Staging'' \<rparr>"
    by (simp add: getConfig_update_def getConfig_def Config_update_def set_environment_staging_def
          overwrite_def overwrite_given_def o)
  have v': "validate (options (config (getConfig_update set_environment_staging hub0))) = Inr ()"
    by (simp add: s validate_Inr_iff opts_valid_def falsy_def includes_env_def
          VALID_ENVIRONMENTS_def)
  have k: "Object_keys (scope_tags (scope hub0)) = []"
    "Object_keys (scope_extras (scope hub0)) = []"
    by (simp_all add: hub0_def Object_keys_def)
  from buildEvent_required_present_empty_omitted [of hub0 "''t0''" "''hello''" Warning None]
    buildEvent_required_present_empty_omitted
      [of "getConfig_update set_environment_staging hub0" "''t0''" "''hello''" Warning None]
    v v' k
  show ?thesis
    by (simp add: o s opts_valid_def or_default_def)
qed

section \<open>Transports\<close>

lemma NodeTransport_invalid_json_succeeds:
  "200 \<le> status \<Longrightarrow> status < 300 \<Longrightarrow>
   NodeTransport_send (\<lambda>event. NodeResponds (Some status) (InvalidJson m)) event
     = \<lparr> success = True, id = None, statusCode = None, error = None \<rparr>"
  by (simp add: NodeTransport_send_def)

lemma FetchTransport_invalid_json:
  "response_ok status \<Longrightarrow>
   FetchTransport_send (\<lambda>event. FetchResponds status (InvalidJson m)) event
     = \<lparr> success = False, id = None, statusCode = None, error = Some m \<rparr>"
  by (simp add: FetchTransport_send_def caught_def)

text \<open>
  C2. The Node transport resolves a 2xx response whose body is not JSON to a success with
  no id (\<open>NodeTransport_invalid_json_succeeds\<close>). The browser's fetch transport does
  not: \<open>response.json()\<close> rejects, the outer \<open>catch\<close> takes it, and a response with
  status 200 and a body that is not JSON resolves to a failure carrying the parser's
  message.
\<close>

theorem FetchTransport_invalid_json_fails:
  "FetchTransport_send (\<lambda>event. FetchResponds 200 (InvalidJson ''Unexpected token <'')) ev1
     = \<lparr> success = False, id = None, statusCode = None, error = Some ''Unexpected token <'' \<rparr>"
  by (simp add: FetchTransport_send_def response_ok_def caught_def)

section \<open>Offline queue\<close>

lemma json_object_idem: "json_object (json_object obj) = json_object obj"
  by (simp add: json_object_def)

lemma JSON_roundtrip_idem [simp]: "JSON_roundtrip (JSON_roundtrip e) = JSON_roundtrip e"
  by (simp add: JSON_roundtrip_def option.map_comp comp_def json_object_idem)

lemma JSON_roundtrip_examples [simp]:
  "JSON_roundtrip ev1 = ev1" "JSON_roundtrip ev2 = ev2" "JSON_roundtrip ev3 = ev3"
  by (simp_all add: JSON_roundtrip_def ev1_def ev2_def ev3_def buildEvent_def hub0_def
        Object_keys_def)

lemma queue_get_read_fails: "ls_readFails ls \<Longrightarrow> queue_get ls = Events []"
  by (simp add: queue_get_def getItem_def)

lemma queue_set_works:
  "storage_works ls \<Longrightarrow> queue_get (queue_set events ls) = Events (map JSON_roundtrip events)"
  "storage_works ls \<Longrightarrow> storage_works (queue_set events ls)"
  by (simp_all add: storage_works_def queue_set_def setItem_def queue_get_def getItem_def)

lemma queue_set_write_fails: "ls_writeFails ls \<Longrightarrow> queue_set events ls = ls"
  by (simp add: queue_set_def setItem_def)

lemma enqueue_non_array:
  "queue_get (storage env) = NonArrayValue \<Longrightarrow> enqueue e env = Inl (ErrorObj ''TypeError'')"
  by (simp add: enqueue_def)

lemma enqueue_array:
  assumes "queue_get (storage env) = Events q"
  shows "enqueue e env =
           Inr (env\<lparr> storage := queue_set
                  ((if length q \<ge> MAX_QUEUE_SIZE then tl q else q) @ [e]) (storage env) \<rparr>)"
  using assms by (simp add: enqueue_def Let_def)

lemma enqueue_returns:
  assumes "queue_get (storage env) \<noteq> NonArrayValue"
  shows "\<exists>env'. enqueue e env = Inr env' \<and> fetch_requests env' = fetch_requests env \<and>
           console env' = console env \<and> navigator env' = navigator env \<and>
           fetch_network env' = fetch_network env"
proof -
  from assms obtain q where "queue_get (storage env) = Events q"
    by (cases "queue_get (storage env)") auto
  from enqueue_array [OF this, of e] show ?thesis by simp
qed

lemma enqueue_write_fails:
  assumes "queue_get (storage env) \<noteq> NonArrayValue" and "ls_writeFails (storage env)"
  shows "enqueue e env = Inr env"
proof -
  from assms(1) obtain q where "queue_get (storage env) = Events q"
    by (cases "queue_get (storage env)") auto
  from enqueue_array [OF this, of e] assms(2) show ?thesis
    by (simp add: queue_set_write_fails)
qed

lemma enqueue_works:
  assumes "storage_works (storage env)" and "queue_get (storage env) = Events q"
  shows "\<exists>env'. enqueue e env = Inr env' \<and> storage_works (storage env') \<and>
           queue_get (storage env') =
             Events (map JSON_roundtrip
               ((if length q \<ge> MAX_QUEUE_SIZE then tl q else q) @ [e]))"
  using assms by (simp add: enqueue_array queue_set_works)

lemma enqueue_all_snoc:
  "enqueue_all (es @ [e]) env =
     (case enqueue_all es env of Inl x \<Rightarrow> Inl x | Inr env' \<Rightarrow> enqueue e env')"
  by (induction es arbitrary: env) (auto split: sum.splits)

lemma enqueue_all_from_empty:
  assumes "storage_works (storage env)" and "queue_get (storage env) = Events []"
  shows "\<exists>env'. enqueue_all es env = Inr env' \<and> storage_works (storage env') \<and>
           queue_get (storage env') =
             Events (map JSON_roundtrip (drop (length es - MAX_QUEUE_SIZE) es))"
proof (induction es rule: rev_induct)
  case Nil
  show ?case using assms by simp
next
  case (snoc e es)
  let ?q = "map JSON_roundtrip (drop (length es - MAX_QUEUE_SIZE) es)"
  from snoc obtain env1 where r: "enqueue_all es env = Inr env1"
    and w: "storage_works (storage env1)"
    and q: "queue_get (storage env1) = Events ?q"
    by auto
  from enqueue_works [OF w q, of e] obtain env2 where e: "enqueue e env1 = Inr env2"
    and w2: "storage_works (storage env2)"
    and q2: "queue_get (storage env2) =
      Events (map JSON_roundtrip ((if length ?q \<ge> MAX_QUEUE_SIZE then tl ?q else ?q) @ [e]))"
    by auto
  have pos: "Suc 0 - MAX_QUEUE_SIZE = 0"
    by (simp add: MAX_QUEUE_SIZE_def)
  have len: "length ?q = min (length es) MAX_QUEUE_SIZE"
    by simp
  have "map JSON_roundtrip ((if length ?q \<ge> MAX_QUEUE_SIZE then tl ?q else ?q) @ [e]) =
          map JSON_roundtrip (drop (length (es @ [e]) - MAX_QUEUE_SIZE) (es @ [e]))"
  proof (cases "length es \<ge> MAX_QUEUE_SIZE")
    case True
    then have "tl ?q = map JSON_roundtrip (drop (Suc (length es) - MAX_QUEUE_SIZE) es)"
      by (simp add: map_tl [symmetric] drop_Suc [symmetric] tl_drop Suc_diff_le)
    with True len show ?thesis
      by (simp add: comp_def Suc_diff_le pos)
  next
    case False
    with len show ?thesis
      by (simp add: comp_def pos)
  qed
  with r e w2 q2 show ?case
    by (simp add: enqueue_all_snoc)
qed

text \<open>
  C8, as stated, fails in its last part: \<open>enqueue\<close> uses what \<open>get\<close> returns as an
  array without a check, and \<open>get\<close> returns whatever valid JSON is stored. With the text
  \<open>null\<close> (or \<open>{}\<close>, or \<open>5\<close>) under the queue's key, \<open>enqueue\<close> throws a
  \<open>TypeError\<close>; the capture call that wanted to queue the event swallows it, resolves to
  \<open>null\<close>, and the event is not queued.
\<close>

theorem enqueue_non_array_counterexample:
  "queue_get (storage page_non_array) = NonArrayValue \<and>
   enqueue ev1 page_non_array = Inl (ErrorObj ''TypeError'') \<and>
   BrowserClient_sendEvent client0 ev1 page_non_array = (Inl (ErrorObj ''TypeError''), page_non_array) \<and>
   BrowserClient_captureMessage client0 ''first'' None ''t0'' page_non_array = (None, page_non_array)"
  by (simp add: page_non_array_def queue_get_def getItem_def enqueue_def
        BrowserClient_sendEvent_def enqueue_then_null_def applyBeforeSend_def client0_def
        hub0_def opts_valid_def merge_defaults_def offline_def BrowserClient_captureMessage_def
        BrowserClient_messageEvent_def safeExecuteAsync_def)

text \<open>
  C8 (amended). Starting from an empty queue on a storage that reads and writes, 101 calls
  of \<open>enqueue\<close> all return and leave exactly 100 entries: the serialised forms of the
  second to the 101st event, in the order they were enqueued, so the entry of the first
  event is gone and the 101st is last. \<open>enqueue\<close> does not fail when the persistence
  layer errors: when reading throws or the stored text does not parse it starts from an
  empty list, and when writing throws it leaves everything as it was. It changes nothing
  but the storage. It fails, with a \<open>TypeError\<close>, exactly when the stored text is valid
  JSON that is not an array.
\<close>

theorem enqueue_101_evicts_oldest:
  assumes "length es = Suc MAX_QUEUE_SIZE"
    and "\<not> ls_readFails (storage env)" and "\<not> ls_writeFails (storage env)"
    and "queue_get (storage env) = Events []"
  shows "(\<exists>env'. enqueue_all es env = Inr env' \<and>
            queue_get (storage env') = Events (map JSON_roundtrip (tl es))) \<and>
         length (map JSON_roundtrip (tl es)) = 100 \<and>
         last (map JSON_roundtrip (tl es)) = JSON_roundtrip (es ! 100) \<and>
         (\<forall>i < 100. map JSON_roundtrip (tl es) ! i = JSON_roundtrip (es ! Suc i)) \<and>
         (distinct (map JSON_roundtrip es) \<longrightarrow>
            JSON_roundtrip (es ! 0) \<notin> set (map JSON_roundtrip (tl es))) \<and>
         (\<forall>e env0. queue_get (storage env0) = NonArrayValue
            \<longleftrightarrow> enqueue e env0 = Inl (ErrorObj ''TypeError'')) \<and>
         (\<forall>e env0. queue_get (storage env0) \<noteq> NonArrayValue \<longrightarrow>
            (\<exists>env1. enqueue e env0 = Inr env1 \<and> fetch_requests env1 = fetch_requests env0 \<and>
               console env1 = console env0)) \<and>
         (\<forall>e env0. queue_get (storage env0) \<noteq> NonArrayValue \<and> ls_writeFails (storage env0) \<longrightarrow>
            enqueue e env0 = Inr env0) \<and>
         (\<forall>ls. ls_readFails ls \<or> ls_item ls \<in> {None, Some EmptyText, Some Unparsable}
            \<longrightarrow> queue_get ls = Events [])"
proof -
  from assms(2,3) have w: "storage_works (storage env)"
    by (simp add: storage_works_def)
  from assms(1) obtain x xs where es: "es = x # xs"
    by (cases es) auto
  from enqueue_all_from_empty [OF w assms(4), of es] assms(1)
  have q: "\<exists>env'. enqueue_all es env = Inr env' \<and>
            queue_get (storage env') = Events (map JSON_roundtrip (tl es))"
    by (auto simp: drop_Suc)
  from assms(1) have l: "length (tl es) = 100"
    by (simp add: MAX_QUEUE_SIZE_def)
  have nth: "\<And>i. i < 100 \<Longrightarrow> tl es ! i = es ! Suc i"
    using l by (simp add: nth_tl)
  have "tl es \<noteq> []"
  proof
    assume "tl es = []"
    then have "length (tl es) = 0" by (simp only: list.size)
    with l show False by simp
  qed
  then have "last (map JSON_roundtrip (tl es)) = JSON_roundtrip (last (tl es))"
    by (simp add: last_map)
  also have "last (tl es) = tl es ! 99"
    using l \<open>tl es \<noteq> []\<close> by (simp add: last_conv_nth)
  also have "\<dots> = es ! 100" using nth [of 99] by simp
  finally have la: "last (map JSON_roundtrip (tl es)) = JSON_roundtrip (es ! 100)" .
  have d: "distinct (map JSON_roundtrip es) \<longrightarrow>
             JSON_roundtrip (es ! 0) \<notin> set (map JSON_roundtrip (tl es))"
    by (simp add: es)
  have n: "\<forall>i < 100. map JSON_roundtrip (tl es) ! i = JSON_roundtrip (es ! Suc i)"
    using l nth by simp
  have f: "\<forall>e env0. queue_get (storage env0) = NonArrayValue
            \<longleftrightarrow> enqueue e env0 = Inl (ErrorObj ''TypeError'')"
  proof (intro allI iffI)
    fix e and env0 :: browser_env
    assume "queue_get (storage env0) = NonArrayValue"
    then show "enqueue e env0 = Inl (ErrorObj ''TypeError'')"
      by (rule enqueue_non_array)
  next
    fix e and env0 :: browser_env
    assume t: "enqueue e env0 = Inl (ErrorObj ''TypeError'')"
    show "queue_get (storage env0) = NonArrayValue"
    proof (rule ccontr)
      assume "queue_get (storage env0) \<noteq> NonArrayValue"
      from enqueue_returns [OF this, of e] t show False by auto
    qed
  qed
  have r: "\<forall>e env0. queue_get (storage env0) \<noteq> NonArrayValue \<longrightarrow>
            (\<exists>env1. enqueue e env0 = Inr env1 \<and> fetch_requests env1 = fetch_requests env0 \<and>
               console env1 = console env0)"
    using enqueue_returns by blast
  have wf: "\<forall>e env0. queue_get (storage env0) \<noteq> NonArrayValue \<and> ls_writeFails (storage env0) \<longrightarrow>
            enqueue e env0 = Inr env0"
    using enqueue_write_fails by blast
  have g: "\<forall>ls. ls_readFails ls \<or> ls_item ls \<in> {None, Some EmptyText, Some Unparsable}
            \<longrightarrow> queue_get ls = Events []"
    by (auto simp: queue_get_def getItem_def)
  from q l la n d f r wf g show ?thesis
    by (simp only: length_map) blast
qed

theorem enqueue_101_evicts_oldest_witness:
  "length events_101 = Suc MAX_QUEUE_SIZE \<and>
   queue_get (storage (page_empty True)) = Events [] \<and>
   (\<exists>env'. enqueue_all events_101 (page_empty True) = Inr env' \<and>
      queue_get (storage env') = Events (map JSON_roundtrip (tl events_101))) \<and>
   length (map JSON_roundtrip (tl events_101)) = 100 \<and>
   last (map JSON_roundtrip (tl events_101)) = JSON_roundtrip (events_101 ! 100)"
proof -
  have n: "length events_101 = Suc MAX_QUEUE_SIZE"
    by (simp add: events_101_def MAX_QUEUE_SIZE_def)
  have r: "\<not> ls_readFails (storage (page_empty True))"
    and w: "\<not> ls_writeFails (storage (page_empty True))"
    by (simp_all add: page_empty_def)
  have q: "queue_get (storage (page_empty True)) = Events []"
    by (simp add: page_empty_def queue_get_def getItem_def)
  from enqueue_101_evicts_oldest [OF n r w q] n q show ?thesis
    by blast
qed

lemma flush_loop_remaining:
  "length (fst (flush_loop events remaining env)) \<le> Suc (length remaining)"
  by (induction events remaining env rule: flush_loop.induct) (auto split: prod.splits)

lemma flush_loop_storage: "storage (snd (flush_loop events remaining env)) = storage env"
  by (induction events remaining env rule: flush_loop.induct)
     (auto simp: transport_send_def split: prod.splits)

lemma flush_loop_sends_prefix:
  "\<exists>k\<le>length events.
     fetch_requests (snd (flush_loop events remaining env)) = fetch_requests env @ take k events"
proof (induction events remaining env rule: flush_loop.induct)
  case (1 remaining env)
  show ?case by simp
next
  case (2 event events remaining env)
  obtain result env' where t: "transport_send event env = (result, env')"
    by (cases "transport_send event env")
  then have r: "fetch_requests env' = fetch_requests env @ [event]"
    by (auto simp: transport_send_def)
  show ?case
  proof (cases "success result")
    case False
    with t r have "fetch_requests (snd (flush_loop (event # events) remaining env))
        = fetch_requests env @ take 1 (event # events)"
      by simp
    then show ?thesis by (intro exI [of _ 1]) simp
  next
    case True
    with 2 [OF t [symmetric]] obtain k where k: "k \<le> length events"
      "fetch_requests (snd (flush_loop events remaining env')) = fetch_requests env' @ take k events"
      by auto
    with t r True have "fetch_requests (snd (flush_loop (event # events) remaining env))
        = fetch_requests env @ take (Suc k) (event # events)"
      by simp
    with k(1) show ?thesis by (intro exI [of _ "Suc k"]) simp
  qed
qed

lemma flush_loop_all_succeed:
  assumes "\<forall>n e. success (FetchTransport_send (fetch_network env n) e)"
  shows "fst (flush_loop events remaining env) = remaining"
  using assms
proof (induction events remaining env rule: flush_loop.induct)
  case (1 remaining env)
  show ?case by simp
next
  case (2 event events remaining env)
  obtain result env' where t: "transport_send event env = (result, env')"
    by (cases "transport_send event env")
  with 2(2) have s: "success result" and n: "fetch_network env' = fetch_network env"
    by (auto simp: transport_send_def)
  from 2(1) [OF t [symmetric]] s 2(2) n t show ?case by simp
qed

lemma flushQueue_leaves_at_most_one:
  assumes "storage_works (storage env)" and "\<not> isProcessingQueue c"
    and "queue_get (storage env) = Events events" and "length events \<ge> 2"
  shows "\<exists>remaining. queue_get (storage (snd (snd (flushQueue c env)))) = Events remaining \<and>
           length remaining \<le> 1"
proof -
  obtain remaining env' where f: "flush_loop events [] env = (remaining, env')"
    by (cases "flush_loop events [] env")
  from flush_loop_remaining [of events "[]" env] f have r: "length remaining \<le> 1"
    by simp
  from flush_loop_storage [of events "[]" env] f have s: "storage env' = storage env"
    by simp
  from r assms(4) have "length remaining < length events" by simp
  with f assms(2,3)
  have "storage (snd (snd (flushQueue c env))) = queue_set remaining (storage env')"
    by (simp add: flushQueue_def)
  with s assms(1) r show ?thesis
    by (simp add: queue_set_works)
qed

text \<open>
  C1. \<open>flushQueue\<close> sends in insertion order and stops at the first failed send, but it
  writes back only the event whose send failed: the array \<open>remaining\<close> never receives
  the events after it. With three queued events and a transport that fails on the second
  request, two requests are made and the queue afterwards holds the second event alone;
  the third, never tried, is lost. (\<open>flushQueue_leaves_at_most_one\<close>: no flush of two
  or more events leaves more than one behind.)
\<close>

theorem flushQueue_drops_untried:
  "queue_get (storage page_with_three) = Events [ev1, ev2, ev3] \<and>
   fst (flushQueue client0 page_with_three) = None \<and>
   fetch_requests (snd (snd (flushQueue client0 page_with_three))) = [ev1, ev2] \<and>
   queue_get (storage (snd (snd (flushQueue client0 page_with_three)))) = Events [ev2]"
  by (simp add: flushQueue_def client0_def page_with_three_def queue_get_def getItem_def
        transport_send_def FetchTransport_send_def fails_on_second_def accepted_def
        response_ok_def parseResponse_def queue_set_def setItem_def Let_def)

section \<open>The beforeSend hook\<close>


lemma applyBeforeSend_drops:
  "opt_beforeSend (options (config h)) = Some hook \<Longrightarrow> hook ev = HookReturns None \<Longrightarrow>
   applyBeforeSend h ev = None"
  by (simp add: applyBeforeSend_def)


lemma BrowserClient_sendEvent_dropped:
  "applyBeforeSend c ev = None \<Longrightarrow> BrowserClient_sendEvent c ev env = (Inr None, env)"
  by (simp add: BrowserClient_sendEvent_def)

lemma NodeClient_sendEvent_dropped:
  "applyBeforeSend c ev = None \<Longrightarrow> NodeClient_sendEvent c ev env = (None, env)"
  by (simp add: NodeClient_sendEvent_def)






text \<open>
  C7. When the configured hook returns \<open>null\<close> for the event a capture call has built,
  the call resolves to \<open>null\<close> and leaves the environment as it was: no request is made
  and nothing is enqueued. This holds for \<open>captureMessage\<close> and \<open>captureException\<close>
  of the browser client and of the Node client.
\<close>

theorem beforeSend_drop:
  assumes "opt_beforeSend (options (config bc)) = Some hook"
    and "opt_beforeSend (options (config nc)) = Some hook"
  shows "(\<forall>ev. BrowserClient_messageEvent bc msg lvl now env = Inr ev \<and> hook ev = HookReturns None
            \<longrightarrow> BrowserClient_captureMessage bc msg lvl now env = (None, env)) \<and>
         (\<forall>ev. BrowserClient_exceptionEvent rt bc err lvl now env = Inr ev \<and>
               hook ev = HookReturns None
            \<longrightarrow> BrowserClient_captureException rt bc err lvl now env = (None, env)) \<and>
         (hook (NodeClient_messageEvent nc msg lvl now) = HookReturns None
            \<longrightarrow> NodeClient_captureMessage nc msg lvl now nenv = (None, nenv)) \<and>
         (hook (NodeClient_exceptionEvent rt nc err lvl now) = HookReturns None
            \<longrightarrow> NodeClient_captureException rt nc err lvl now nenv = (None, nenv))"
  using assms
  by (simp add: BrowserClient_captureMessage_def BrowserClient_captureException_def
        NodeClient_captureMessage_def NodeClient_captureException_def safeExecuteAsync_def
        BrowserClient_sendEvent_dropped NodeClient_sendEvent_dropped applyBeforeSend_drops)

theorem beforeSend_drop_witness:
  "BrowserClient_captureMessage (client_with_hook (\<lambda>e. HookReturns None)) ''hello'' None ''t0''
       (page_empty True) = (None, page_empty True) \<and>
   BrowserClient_captureException runtime0 (client_with_hook (\<lambda>e. HookReturns None))
       (StringValue ''boom'') None ''t0'' (page_empty True) = (None, page_empty True) \<and>
   NodeClient_captureMessage (node_client_with_hook (\<lambda>e. HookReturns None)) ''hello'' None ''t0''
       node_process = (None, node_process) \<and>
   NodeClient_captureException runtime0 (node_client_with_hook (\<lambda>e. HookReturns None))
       (StringValue ''boom'') None ''t0'' node_process = (None, node_process) \<and>
   fetch_requests (page_empty True) = [] \<and> http_requests node_process = []"
  using beforeSend_drop [where bc = "client_with_hook (\<lambda>e. HookReturns None)"
      and hook = "\<lambda>e. HookReturns None"
      and nc = "node_client_with_hook (\<lambda>e. HookReturns None)" and msg = "''hello''"
      and lvl = None and now = "''t0''" and env = "page_empty True" and rt = runtime0
      and err = "StringValue ''boom''" and nenv = node_process]
  by (simp add: client_with_hook_def node_client_with_hook_def BrowserClient_messageEvent_def
        BrowserClient_exceptionEvent_def page_empty_def node_process_def Let_def)

section \<open>Snapshot of the tags\<close>

lemma mutate_ref_frame:
  assumes "scope_tags_ref s < length (objects s)" and "r < length (objects s)"
    and "r \<noteq> scope_tags_ref s"
  shows "scope_tags_ref (mutate_ref s m) < length (objects (mutate_ref s m))"
    and "r < length (objects (mutate_ref s m))"
    and "r \<noteq> scope_tags_ref (mutate_ref s m)"
    and "objects (mutate_ref s m) ! r = objects s ! r"
  using assms by (cases m; simp add: setTag_ref_def setTags_ref_def nth_append)+

lemma mutations_frame:
  assumes "scope_tags_ref s < length (objects s)" and "r < length (objects s)"
    and "r \<noteq> scope_tags_ref s"
  shows "objects (foldl mutate_ref s ms) ! r = objects s ! r"
  using assms
proof (induction ms arbitrary: s)
  case Nil
  show ?case by simp
next
  case (Cons m ms)
  from mutate_ref_frame [OF Cons.prems, of m] Cons.IH [of "mutate_ref s m"]
  show ?case by simp
qed

lemma mutate_ref_scope:
  assumes "scope_tags_ref s < length (objects s)"
    and "scope_tags_of s = scope_tags (scope h)"
  shows "scope_tags_ref (mutate_ref s m) < length (objects (mutate_ref s m))"
    and "scope_tags_of (mutate_ref s m) = scope_tags (scope (mutate h m))"
  using assms
  by (cases m; simp add: setTag_ref_def setTags_ref_def setTag_def setTags_def scope_tags_of_def)+

lemma mutations_scope:
  assumes "scope_tags_ref s < length (objects s)"
    and "scope_tags_of s = scope_tags (scope h)"
  shows "scope_tags_of (foldl mutate_ref s ms) = scope_tags (scope (foldl mutate h ms))"
  using assms
proof (induction ms arbitrary: s h)
  case Nil
  then show ?case by simp
next
  case (Cons m ms)
  from mutate_ref_scope [OF Cons.prems, of m] Cons.IH [of "mutate_ref s m" "mutate h m"]
  show ?case by simp
qed

lemma buildEvent_tags_ref_fresh:
  assumes "scope_tags_ref s < length (objects s)" and "buildEvent_tags_ref s = (Some r, s1)"
  shows "r = length (objects s)" and "objects s1 = objects s @ [spread [] (scope_tags_of s)]"
    and "scope_tags_ref s1 = scope_tags_ref s"
  using assms by (auto simp: buildEvent_tags_ref_def split: if_splits)

lemma buildEvent_tags_ref_scope:
  assumes "scope_tags_ref s < length (objects s)" and "buildEvent_tags_ref s = (r, s1)"
  shows "scope_tags_ref s1 < length (objects s1)" and "scope_tags_of s1 = scope_tags_of s"
  using assms
  by (auto simp: buildEvent_tags_ref_def scope_tags_of_def nth_append split: if_splits)

lemma buildEvent_tags_ref_value:
  assumes "scope_tags_of s = scope_tags (scope h)" and "buildEvent_tags_ref s = (r, s1)"
  shows "event_tags s1 r = tags (buildEvent h now msg lvl err)"
  using assms
  by (auto simp: buildEvent_tags_ref_def buildEvent_def event_tags_def split: if_splits)

text \<open>
  Had the event kept the scope's own reference, a later \<open>setTag\<close> would show through it.
\<close>

lemma shared_reference_would_change:
  "event_tags (setTag_ref ''version'' ''2.0.0'' store_tagged) (Some (scope_tags_ref store_tagged))
     = Some [(''version'', ''2.0.0'')] \<and>
   event_tags store_tagged (Some (scope_tags_ref store_tagged)) = Some [(''version'', ''1.0.0'')]"
  by (simp add: event_tags_def setTag_ref_def store_tagged_def scope_tags_of_def)

text \<open>
  C9. Let the store hold the object \<open>this.scope.tags\<close> refers to, and let an event be
  built. What the event's \<open>tags\<close> reads as is the tags value of \<open>buildEvent\<close>, and it
  reads the same after any sequence of \<open>setTag\<close> and \<open>setTags\<close> calls, while the scope's
  own tags map follows those calls.
\<close>

theorem built_event_tags_isolated:
  assumes "scope_tags_ref s < length (objects s)"
    and "scope_tags_of s = scope_tags (scope h)"
    and "buildEvent_tags_ref s = (r, s1)"
  shows "event_tags s1 r = tags (buildEvent h now msg lvl err) \<and>
         event_tags (foldl mutate_ref s1 ms) r = event_tags s1 r \<and>
         scope_tags_of (foldl mutate_ref s1 ms) = scope_tags (scope (foldl mutate h ms))"
proof -
  note sc = buildEvent_tags_ref_scope [OF assms(1,3)]
  have "event_tags (foldl mutate_ref s1 ms) r = event_tags s1 r"
  proof (cases r)
    case None
    then show ?thesis by (simp add: event_tags_def)
  next
    case (Some a)
    note fr = buildEvent_tags_ref_fresh [OF assms(1) assms(3) [unfolded Some]]
    from fr assms(1) have "a < length (objects s1)" and "a \<noteq> scope_tags_ref s1"
      by simp_all
    from mutations_frame [OF sc(1) this] show ?thesis
      by (simp add: event_tags_def Some)
  qed
  moreover from mutations_scope [OF sc(1), of h ms] sc(2) assms(2)
  have "scope_tags_of (foldl mutate_ref s1 ms) = scope_tags (scope (foldl mutate h ms))"
    by simp
  ultimately show ?thesis
    using buildEvent_tags_ref_value [OF assms(2,3)] by simp
qed

theorem built_event_tags_isolated_witness:
  "event_tags (foldl mutate_ref (snd (buildEvent_tags_ref store_tagged))
      [SetTag ''version'' ''2.0.0'', SetTags [(''region'', ''eu'')]])
      (fst (buildEvent_tags_ref store_tagged)) = Some [(''version'', ''1.0.0'')] \<and>
   tags (buildEvent hub_tagged ''t0'' ''hello'' Warning None) = Some [(''version'', ''1.0.0'')] \<and>
   scope_tags (scope (foldl mutate hub_tagged
      [SetTag ''version'' ''2.0.0'', SetTags [(''region'', ''eu'')]]))
     = [(''version'', ''2.0.0''), (''region'', ''eu'')]"
  using built_event_tags_isolated [where s = store_tagged and h = hub_tagged
      and r = "fst (buildEvent_tags_ref store_tagged)"
      and ?s1.0 = "snd (buildEvent_tags_ref store_tagged)"
      and ms = "[SetTag ''version'' ''2.0.0'', SetTags [(''region'', ''eu'')]]"
      and now = "''t0''" and msg = "''hello''" and lvl = Warning and err = None]
  by (simp add: store_tagged_def hub_tagged_def hub0_def scope_tags_of_def buildEvent_tags_ref_def
        Object_keys_def buildEvent_def setTag_def setTags_def event_tags_def)

section \<open>Package entry points\<close>

text \<open>
  With a client: \<open>init\<close> on valid options, then \<open>captureMessage\<close> against a
  transport that accepts, resolves to the id the server gave and makes one request.
\<close>

lemma BrowserClient_new_example:
  "BrowserClient_new opts_valid (page_empty True) = Inr (client0, page_empty True)"
  by (simp add: BrowserClient_new_def hub0_constructed flushQueue_def client0_def
        page_empty_def queue_get_def getItem_def hub0_def)

lemma init_then_captureMessage:
  "Browser_init opts_valid sdk_fresh = Inr sdk_running \<and>
   fst (Browser_captureMessage ''hello'' (Some Warning) ''t0'' sdk_running) = Some ''evt-1'' \<and>
   fetch_requests (page (snd (Browser_captureMessage ''hello'' (Some Warning) ''t0'' sdk_running)))
     = [(buildEvent hub0 ''t0'' ''hello'' Warning None)\<lparr> userAgent := Some ''ua'' \<rparr>]"
proof -
  have "Browser_init opts_valid sdk_fresh = Inr sdk_running"
    by (simp add: Browser_init_def sdk_fresh_def sdk_running_def BrowserClient_new_example)
  moreover have "Browser_captureMessage ''hello'' (Some Warning) ''t0'' sdk_running
      = (Some ''evt-1'', sdk_running\<lparr> page := (page_empty True)\<lparr> fetch_requests :=
           [(buildEvent hub0 ''t0'' ''hello'' Warning None)\<lparr> userAgent := Some ''ua'' \<rparr>] \<rparr> \<rparr>)"
    by (simp add: sdk_running_def page_empty_def client0_def
        Browser_captureMessage_def BrowserClient_captureMessage_def BrowserClient_messageEvent_def
        safeExecuteAsync_def BrowserClient_sendEvent_def applyBeforeSend_def hub0_def
        opts_valid_def merge_defaults_def offline_def transport_send_def FetchTransport_send_def
        accepted_def response_ok_def parseResponse_def or_null_def falsy_def Let_def
        buildEvent_def)
  ultimately show ?thesis by simp
qed

text \<open>
  C10. While no client is initialised, the package-level \<open>captureMessage\<close> and
  \<open>captureException\<close> of both packages resolve to \<open>null\<close> and change nothing but the
  console, to which they add one warning: no request is made and nothing is stored.
  \<open>close\<close> resets the singleton, so the same holds after it.
\<close>

theorem capture_without_client:
  "(client sdk = None \<longrightarrow>
      Browser_captureMessage msg lvl now sdk
        = (None, sdk\<lparr> page := warn ''ErrorTracker: Not initialized. Call init() first.'' (page sdk) \<rparr>) \<and>
      Browser_captureException rt err lvl now sdk
        = (None, sdk\<lparr> page := warn ''ErrorTracker: Not initialized. Call init() first.'' (page sdk) \<rparr>)) \<and>
   (global_client nsdk = None \<longrightarrow>
      Node_captureMessage msg lvl now nsdk
        = (None, nsdk\<lparr> process :=
             node_warn ''ErrorTracker: Not initialized. Call init() first.'' (process nsdk) \<rparr>) \<and>
      Node_captureException rt err lvl now nsdk
        = (None, nsdk\<lparr> process :=
             node_warn ''ErrorTracker: Not initialized. Call init() first.'' (process nsdk) \<rparr>)) \<and>
   client (Browser_close sdk) = None \<and> page (Browser_close sdk) = page sdk \<and>
   global_client (Node_close nsdk) = None \<and> process (Node_close nsdk) = process nsdk \<and>
   fst (Browser_captureMessage msg lvl now (Browser_close sdk)) = None \<and>
   fst (Browser_captureException rt err lvl now (Browser_close sdk)) = None \<and>
   fst (Node_captureMessage msg lvl now (Node_close nsdk)) = None \<and>
   fst (Node_captureException rt err lvl now (Node_close nsdk)) = None \<and>
   fetch_requests (warn m env) = fetch_requests env \<and> storage (warn m env) = storage env \<and>
   console (warn m env) = console env @ [m] \<and>
   http_requests (node_warn m nenv) = http_requests nenv \<and>
   node_console (node_warn m nenv) = node_console nenv @ [m]"
  by (simp add: Browser_captureMessage_def Browser_captureException_def Node_captureMessage_def
        Node_captureException_def Browser_close_def Node_close_def warn_def node_warn_def)

theorem capture_without_client_witness:
  "client sdk_fresh = None \<and> global_client node_sdk_fresh = None \<and>
   client sdk_running \<noteq> None \<and> global_client node_sdk_running \<noteq> None \<and>
   Browser_captureMessage ''hello'' None ''t0'' sdk_fresh
     = (None, sdk_fresh\<lparr> page :=
          warn ''ErrorTracker: Not initialized. Call init() first.'' (page sdk_fresh) \<rparr>) \<and>
   Node_captureException runtime0 (StringValue ''boom'') None ''t0'' node_sdk_fresh
     = (None, node_sdk_fresh\<lparr> process :=
          node_warn ''ErrorTracker: Not initialized. Call init() first.'' (process node_sdk_fresh) \<rparr>) \<and>
   fst (Browser_captureMessage ''hello'' None ''t0'' (Browser_close sdk_running)) = None \<and>
   fst (Node_captureMessage ''hello'' None ''t0'' (Node_close node_sdk_running)) = None"
  using capture_without_client [where sdk = sdk_fresh and nsdk = node_sdk_fresh
      and msg = "''hello''" and lvl = None and now = "''t0''" and rt = runtime0
      and err = "StringValue ''boom''"]
    capture_without_client [where sdk = sdk_running and nsdk = node_sdk_running
      and msg = "''hello''" and lvl = None and now = "''t0''" and rt = runtime0
      and err = "StringValue ''boom''"]
  by (simp add: sdk_fresh_def node_sdk_fresh_def sdk_running_def node_sdk_running_def)

end
